theory Spec2Isabelle
  imports Main "HOL-Library.Multiset"
begin

section \<open>pyhydra/adml\_classification.py: the classification entry points\<close>

text \<open>
  A shallow embedding of the five entry points of \<^verbatim>\<open>adml_classification.py\<close>.
  The module is orchestration code: it consults the file system, reads and writes
  tables, and calls into \<^verbatim>\<open>.base\<close>, \<^verbatim>\<open>.utils\<close> and \<^verbatim>\<open>.classification\<close>.
  The model threads a \<open>world\<close> (file system and a trace of the calls made) through every
  function; a raised exception is the outcome \<open>Raise\<close>, carrying the world at the moment
  of the raise. The \<^verbatim>\<open>print\<close> calls are not modelled.
\<close>

subsection \<open>Exceptions, strings and paths\<close>

datatype error =
    Exception string
  | TypeError string
  | KeyError string
  | ValueError string
  | FileNotFoundError string
  | ParserError string
  | UnpicklingError string
  | ExternalError string

text \<open>Python's \<^verbatim>\<open>str\<close> on an integer: decimal digits, with a minus sign when negative.\<close>

definition digit_char :: "nat \<Rightarrow> char" where
  "digit_char d = ''0123456789'' ! d"

function str_nat :: "nat \<Rightarrow> string" where
  "str_nat n = (if n < 10 then [digit_char n] else str_nat (n div 10) @ [digit_char (n mod 10)])"
  by pat_completeness auto
termination
  by (relation "measure (\<lambda>n. n)") auto

declare str_nat.simps [simp del]

definition str_int :: "int \<Rightarrow> string" where
  "str_int i = (if i < 0 then CHR ''-'' # str_nat (nat (- i)) else str_nat (nat i))"

text \<open>\<^verbatim>\<open>posixpath.join\<close>: a component that starts with a slash replaces what came before;
  otherwise it is appended, after a slash unless the path is empty or already ends in one.\<close>

definition join2 :: "string \<Rightarrow> string \<Rightarrow> string" where
  "join2 path b =
     (if b \<noteq> [] \<and> hd b = CHR ''/'' then b
      else if path = [] \<or> last path = CHR ''/'' then path @ b
      else path @ ''/'' @ b)"

definition os_path_join :: "string \<Rightarrow> string list \<Rightarrow> string" where
  "os_path_join a p = foldl join2 a p"

subsection \<open>Tables, file contents, the file system\<close>

datatype cell = Cell string | NaN

record table =
  columns :: "string list"
  rows :: "cell list list"

type_synonym split_index = "(nat list \<times> nat list) list"

datatype content = Pickle split_index | Tsv table | Other string

record fsys =
  files :: "(string \<times> content) list"
  dirs :: "string list"

definition os_path_isfile :: "string \<Rightarrow> fsys \<Rightarrow> bool" where
  "os_path_isfile p f = (case map_of (files f) p of None \<Rightarrow> False | Some c \<Rightarrow> True)"

text \<open>\<^verbatim>\<open>os.path.exists(path)\<close> takes exactly one positional argument; any other number
  of arguments is a \<^verbatim>\<open>TypeError\<close> at the call.\<close>

definition os_path_exists :: "string list \<Rightarrow> fsys \<Rightarrow> error + bool" where
  "os_path_exists args f =
     (case args of
        [p] \<Rightarrow> Inr (os_path_isfile p f \<or> p \<in> set (dirs f))
      | _ \<Rightarrow> Inl (TypeError ''exists() takes 1 positional argument''))"

definition os_makedirs :: "string \<Rightarrow> fsys \<Rightarrow> fsys" where
  "os_makedirs p f = f\<lparr>dirs := p # dirs f\<rparr>"

definition write_file :: "string \<Rightarrow> content \<Rightarrow> fsys \<Rightarrow> fsys" where
  "write_file p c f = f\<lparr>files := (p, c) # files f\<rparr>"

subsection \<open>The collaborators that are imported, and the trace of calls\<close>

datatype input_kind = RB | VB

datatype input_data = Input_data input_kind string "string list"

fun get_y :: "input_data \<Rightarrow> string list" where
  "get_y (Input_data k tsv y) = y"

datatype wf_class =
    RB_RepeatedHoldOut_DualSVM_Classification
  | RB_KFold_DualSVM_Classification
  | VB_RepeatedHoldOut_DualSVM_Classification
  | VB_KFold_DualSVM_Classification
  | RB_RepeatedHoldOut_DualSVM_Classification_Nested_Feature_Selection
  | VB_RepeatedHoldOut_DualSVM_Classification_Nested_Feature_Selection

record workflow =
  wf_class :: wf_class
  wf_input :: input_data
  wf_split_index :: split_index
  wf_output_dir :: string
  wf_n_threads :: int
  wf_n_iterations :: int
  wf_balanced :: bool
  wf_feature_selection :: "(string \<times> int) option"
  wf_verbose :: bool

datatype voting = soft_majority_voting | hard_majority_voting | consensus_voting

record roi_call =
  rc_feature_tsv :: string
  rc_output_dir :: string
  rc_cv_repetition :: int
  rc_cv_strategy :: string
  rc_class_weight_balanced :: bool
  rc_n_threads :: int
  rc_seed :: "int option"
  rc_verbose :: bool

datatype event =
    Ev_input input_kind string
  | Ev_pickle_load string
  | Ev_make_cv_partition "string list" string string int "int option"
  | Ev_run workflow
  | Ev_read_csv string
  | Ev_makedirs string
  | Ev_to_csv string table
  | Ev_classification_roi roi_call
  | Ev_voting voting string "int list" int

text \<open>
  The imported functions are parameters of the model. Each one sees and may change the
  file system, and either returns or raises; none of them can touch the trace.
\<close>

type_synonym 'a ext = "fsys \<Rightarrow> (error + 'a) \<times> fsys"

record env =
  ext_Input :: "input_kind \<Rightarrow> string \<Rightarrow> string list ext"
  ext_make_cv_partition :: "string list \<Rightarrow> string \<Rightarrow> string \<Rightarrow> int \<Rightarrow> int option \<Rightarrow> split_index ext"
  ext_run :: "workflow \<Rightarrow> unit ext"
  ext_voting :: "voting \<Rightarrow> string \<Rightarrow> int list \<Rightarrow> int \<Rightarrow> unit ext"

record world =
  fs :: fsys
  trace :: "event list"

datatype 'a outcome = Raise error world | Return 'a world

type_synonym 'a prog = "world \<Rightarrow> 'a outcome"

definition bind :: "'a prog \<Rightarrow> ('a \<Rightarrow> 'b prog) \<Rightarrow> 'b prog" where
  "bind m k w = (case m w of Raise e w' \<Rightarrow> Raise e w' | Return a w' \<Rightarrow> k a w')"

definition raise :: "error \<Rightarrow> 'a prog" where
  "raise e w = Raise e w"

definition log :: "event \<Rightarrow> world \<Rightarrow> world" where
  "log ev w = w\<lparr>trace := trace w @ [ev]\<rparr>"

definition call_ext :: "event \<Rightarrow> 'a ext \<Rightarrow> 'a prog" where
  "call_ext ev f w =
     (case f (fs w) of
        (Inl e, f') \<Rightarrow> Raise e (log ev (w\<lparr>fs := f'\<rparr>))
      | (Inr a, f') \<Rightarrow> Return a (log ev (w\<lparr>fs := f'\<rparr>)))"

fun world_of :: "'a outcome \<Rightarrow> world" where
  "world_of (Raise e w) = w"
| "world_of (Return a w) = w"

fun raised :: "'a outcome \<Rightarrow> error option" where
  "raised (Raise e w) = Some e"
| "raised (Return a w) = None"

subsection \<open>The data split step shared by the four single-scale entry points\<close>

text \<open>Lines 46--49 (and 97--100, 145--148, 196--199, word for word the same): the pickle is
  looked up under \<^verbatim>\<open>output_dir\<close> by a name built from \<^verbatim>\<open>cv_repetition\<close>.\<close>

definition split_pickle :: "string \<Rightarrow> int \<Rightarrow> string" where
  "split_pickle output_dir cv_repetition =
     os_path_join output_dir [''data_split_stratified_'' @ str_int cv_repetition @ ''-holdout.pkl'']"

definition pickle_load :: "string \<Rightarrow> split_index prog" where
  "pickle_load p w =
     (case map_of (files (fs w)) p of
        None \<Rightarrow> Raise (FileNotFoundError p) (log (Ev_pickle_load p) w)
      | Some (Pickle s) \<Rightarrow> Return s (log (Ev_pickle_load p) w)
      | Some _ \<Rightarrow> Raise (UnpicklingError p) (log (Ev_pickle_load p) w))"

definition data_split :: "env \<Rightarrow> input_data \<Rightarrow> string \<Rightarrow> int \<Rightarrow> string \<Rightarrow> int option \<Rightarrow> split_index prog" where
  "data_split E input_data output_dir cv_repetition cv_strategy seed w =
     (if os_path_isfile (split_pickle output_dir cv_repetition) (fs w)
      then pickle_load (split_pickle output_dir cv_repetition) w
      else call_ext (Ev_make_cv_partition (get_y input_data) cv_strategy output_dir cv_repetition seed)
             (ext_make_cv_partition E (get_y input_data) cv_strategy output_dir cv_repetition seed) w)"

definition new_input :: "env \<Rightarrow> input_kind \<Rightarrow> string \<Rightarrow> input_data prog" where
  "new_input E k tsv =
     bind (call_ext (Ev_input k tsv) (ext_Input E k tsv)) (\<lambda>y. Return (Input_data k tsv y))"

definition run :: "env \<Rightarrow> workflow \<Rightarrow> unit prog" where
  "run E wfl = call_ext (Ev_run wfl) (ext_run E wfl)"

subsection \<open>The single-scale entry points\<close>

definition classification_roi ::
  "env \<Rightarrow> string \<Rightarrow> string \<Rightarrow> int \<Rightarrow> string \<Rightarrow> bool \<Rightarrow> int \<Rightarrow> int option \<Rightarrow> bool \<Rightarrow> unit prog" where
  "classification_roi E feature_tsv output_dir cv_repetition cv_strategy class_weight_balanced
       n_threads seed verbose =
     bind (new_input E RB feature_tsv) (\<lambda>input_data.
     bind (data_split E input_data output_dir cv_repetition cv_strategy seed) (\<lambda>split_index.
       if cv_strategy = ''hold_out'' then
         run E \<lparr>wf_class = RB_RepeatedHoldOut_DualSVM_Classification, wf_input = input_data,
                wf_split_index = split_index,
                wf_output_dir = os_path_join output_dir [''classification''],
                wf_n_threads = n_threads, wf_n_iterations = cv_repetition,
                wf_balanced = class_weight_balanced, wf_feature_selection = None,
                wf_verbose = verbose\<rparr>
       else if cv_strategy = ''k_fold'' then
         run E \<lparr>wf_class = RB_KFold_DualSVM_Classification, wf_input = input_data,
                wf_split_index = split_index,
                wf_output_dir = os_path_join output_dir [''classification''],
                wf_n_threads = n_threads, wf_n_iterations = cv_repetition,
                wf_balanced = class_weight_balanced, wf_feature_selection = None,
                wf_verbose = verbose\<rparr>
       else raise (Exception ''CV methods have not been implemented'')))"

definition classification_roi_feature_selection ::
  "env \<Rightarrow> string \<Rightarrow> string \<Rightarrow> int \<Rightarrow> string \<Rightarrow> bool \<Rightarrow> string \<Rightarrow> int \<Rightarrow> int \<Rightarrow> int option \<Rightarrow> bool
     \<Rightarrow> unit prog" where
  "classification_roi_feature_selection E feature_tsv output_dir cv_repetition cv_strategy
       class_weight_balanced feature_selection_method top_k n_threads seed verbose =
     bind (new_input E RB feature_tsv) (\<lambda>input_data.
     bind (data_split E input_data output_dir cv_repetition cv_strategy seed) (\<lambda>split_index.
       if cv_strategy = ''hold_out'' then
         run E \<lparr>wf_class = RB_RepeatedHoldOut_DualSVM_Classification_Nested_Feature_Selection,
                wf_input = input_data, wf_split_index = split_index,
                wf_output_dir = os_path_join output_dir [''classification''],
                wf_n_threads = n_threads, wf_n_iterations = cv_repetition,
                wf_balanced = class_weight_balanced,
                wf_feature_selection = Some (feature_selection_method, top_k),
                wf_verbose = verbose\<rparr>
       else if cv_strategy = ''k_fold'' then
         raise (Exception
           ''Non-nested feature selection is currently only supported for repeated hold-out CV'')
       else raise (Exception ''CV methods have not been implemented'')))"

definition classification_voxel ::
  "env \<Rightarrow> string \<Rightarrow> string \<Rightarrow> int \<Rightarrow> string \<Rightarrow> bool \<Rightarrow> int \<Rightarrow> int option \<Rightarrow> bool \<Rightarrow> unit prog" where
  "classification_voxel E participant_tsv output_dir cv_repetition cv_strategy class_weight_balanced
       n_threads seed verbose =
     bind (new_input E VB participant_tsv) (\<lambda>input_data.
     bind (data_split E input_data output_dir cv_repetition cv_strategy seed) (\<lambda>split_index.
       if cv_strategy = ''hold_out'' then
         run E \<lparr>wf_class = VB_RepeatedHoldOut_DualSVM_Classification, wf_input = input_data,
                wf_split_index = split_index,
                wf_output_dir = os_path_join output_dir [''classification''],
                wf_n_threads = n_threads, wf_n_iterations = cv_repetition,
                wf_balanced = class_weight_balanced, wf_feature_selection = None,
                wf_verbose = verbose\<rparr>
       else if cv_strategy = ''k_fold'' then
         run E \<lparr>wf_class = VB_KFold_DualSVM_Classification, wf_input = input_data,
                wf_split_index = split_index,
                wf_output_dir = os_path_join output_dir [''classification''],
                wf_n_threads = n_threads, wf_n_iterations = cv_repetition,
                wf_balanced = class_weight_balanced, wf_feature_selection = None,
                wf_verbose = verbose\<rparr>
       else raise (Exception ''CV methods have not been implemented'')))"

definition classification_voxel_feature_selection ::
  "env \<Rightarrow> string \<Rightarrow> string \<Rightarrow> int \<Rightarrow> string \<Rightarrow> bool \<Rightarrow> string \<Rightarrow> int \<Rightarrow> int \<Rightarrow> int option \<Rightarrow> bool
     \<Rightarrow> unit prog" where
  "classification_voxel_feature_selection E feature_tsv output_dir cv_repetition cv_strategy
       class_weight_balanced feature_selection_method top_k n_threads seed verbose =
     bind (new_input E VB feature_tsv) (\<lambda>input_data.
     bind (data_split E input_data output_dir cv_repetition cv_strategy seed) (\<lambda>split_index.
       if cv_strategy = ''hold_out'' then
         run E \<lparr>wf_class = VB_RepeatedHoldOut_DualSVM_Classification_Nested_Feature_Selection,
                wf_input = input_data, wf_split_index = split_index,
                wf_output_dir = os_path_join output_dir [''classification''],
                wf_n_threads = n_threads, wf_n_iterations = cv_repetition,
                wf_balanced = class_weight_balanced,
                wf_feature_selection = Some (feature_selection_method, top_k),
                wf_verbose = verbose\<rparr>
       else if cv_strategy = ''k_fold'' then
         raise (Exception
           ''Non-nested feature selection is currently only supported for repeated hold-out CV'')
       else raise (Exception ''CV methods have not been implemented'')))"

subsection \<open>The pandas operations the orchestrator uses\<close>

text \<open>
  A data frame is its column names and its rows. \<^verbatim>\<open>read_csv\<close> renames repeated header
  names and pads or rejects ragged lines, so what it returns always has distinct column
  names and rows as long as the header: \<open>wf_table\<close>.
\<close>

definition wf_table :: "table \<Rightarrow> bool" where
  "wf_table df = (distinct (columns df) \<and> list_all (\<lambda>r. length r = length (columns df)) (rows df))"

fun index_of :: "'a \<Rightarrow> 'a list \<Rightarrow> nat" where
  "index_of x [] = 0"
| "index_of x (y # ys) = (if x = y then 0 else Suc (index_of x ys))"

definition drop_at :: "nat \<Rightarrow> 'a list \<Rightarrow> 'a list" where
  "drop_at k xs = take k xs @ drop (Suc k) xs"

definition ebind :: "error + 'a \<Rightarrow> ('a \<Rightarrow> error + 'b) \<Rightarrow> error + 'b" where
  "ebind m k = (case m of Inl e \<Rightarrow> Inl e | Inr a \<Rightarrow> k a)"

text \<open>\<^verbatim>\<open>df[name]\<close>: the cells of one column, or \<^verbatim>\<open>KeyError\<close>.\<close>

definition col :: "string \<Rightarrow> table \<Rightarrow> error + cell list" where
  "col name df =
     (if name \<in> set (columns df)
      then Inr (map (\<lambda>r. r ! index_of name (columns df)) (rows df))
      else Inl (KeyError name))"

text \<open>\<^verbatim>\<open>df.loc[df[name].isin(vals)]\<close>, once \<^verbatim>\<open>df[name]\<close> is known to exist.\<close>

definition loc_isin :: "string \<Rightarrow> cell list \<Rightarrow> table \<Rightarrow> table" where
  "loc_isin name vals df =
     df\<lparr>rows := filter (\<lambda>r. r ! index_of name (columns df) \<in> set vals) (rows df)\<rparr>"

record iframe =
  ix_name :: string
  ix_labels :: "cell list"
  if_columns :: "string list"
  if_rows :: "cell list list"

definition set_index :: "string \<Rightarrow> table \<Rightarrow> error + iframe" where
  "set_index name df =
     (if name \<in> set (columns df)
      then Inr \<lparr>ix_name = name,
                ix_labels = map (\<lambda>r. r ! index_of name (columns df)) (rows df),
                if_columns = drop_at (index_of name (columns df)) (columns df),
                if_rows = map (drop_at (index_of name (columns df))) (rows df)\<rparr>
      else Inl (KeyError name))"

text \<open>
  \<^verbatim>\<open>df.reindex(index=target)\<close>: an index equal to the target is kept as it is; an index
  with repeated labels cannot be reindexed; otherwise each target label takes the row
  carrying that label, or a row of \<^verbatim>\<open>NaN\<close> when no row carries it.
\<close>

definition reindex :: "cell list \<Rightarrow> iframe \<Rightarrow> error + iframe" where
  "reindex target fr =
     (if ix_labels fr = target then Inr fr
      else if \<not> distinct (ix_labels fr)
        then Inl (ValueError ''cannot reindex on an axis with duplicate labels'')
      else Inr (fr\<lparr>ix_labels := target,
                   if_rows := map (\<lambda>t. case map_of (zip (ix_labels fr) (if_rows fr)) t of
                                          Some r \<Rightarrow> r
                                        | None \<Rightarrow> replicate (length (if_columns fr)) NaN) target\<rparr>))"

definition reset_index :: "iframe \<Rightarrow> error + table" where
  "reset_index fr =
     (if ix_name fr \<in> set (if_columns fr)
      then Inl (ValueError (''cannot insert '' @ ix_name fr @ '', already exists''))
      else Inr \<lparr>columns = ix_name fr # if_columns fr,
                rows = map (\<lambda>(l, r). l # r) (zip (ix_labels fr) (if_rows fr))\<rparr>)"

text \<open>\<^verbatim>\<open>df[name] = vals\<close>: an existing column is overwritten where it stands, a new one is
  appended as the last column; the list must be as long as the frame.\<close>

definition set_column :: "string \<Rightarrow> cell list \<Rightarrow> table \<Rightarrow> error + table" where
  "set_column name vals df =
     (if length vals \<noteq> length (rows df)
        then Inl (ValueError ''Length of values does not match length of index'')
      else if name \<in> set (columns df)
        then Inr (df\<lparr>rows := map (\<lambda>(r, v). r[index_of name (columns df) := v]) (zip (rows df) vals)\<rparr>)
      else Inr (df\<lparr>columns := columns df @ [name],
                   rows := map (\<lambda>(r, v). r @ [v]) (zip (rows df) vals)\<rparr>))"

definition rename_column :: "string \<Rightarrow> string \<Rightarrow> table \<Rightarrow> table" where
  "rename_column old new df = df\<lparr>columns := map (\<lambda>c. if c = old then new else c) (columns df)\<rparr>"

text \<open>
  Reading and writing. \<^verbatim>\<open>pd.read_csv\<close> raises on a missing file and on a file that is
  no table, and returns a well-formed table otherwise. Writing a table and making a
  folder are taken to succeed (a full disk, a missing permission or a file standing where
  a folder is wanted are outside the model); \<^verbatim>\<open>os.makedirs\<close> records the folder it is
  asked for, not its parents. Every one of these calls leaves its event in the trace.
\<close>

definition read_csv :: "string \<Rightarrow> table prog" where
  "read_csv p w =
     (case map_of (files (fs w)) p of
        None \<Rightarrow> Raise (FileNotFoundError p) (log (Ev_read_csv p) w)
      | Some (Tsv t) \<Rightarrow>
          (if wf_table t then Return t (log (Ev_read_csv p) w)
           else Raise (ParserError p) (log (Ev_read_csv p) w))
      | Some _ \<Rightarrow> Raise (ParserError p) (log (Ev_read_csv p) w))"

definition to_csv :: "table \<Rightarrow> string \<Rightarrow> unit prog" where
  "to_csv df p w = Return () (log (Ev_to_csv p df) (w\<lparr>fs := write_file p (Tsv df) (fs w)\<rparr>))"

definition path_exists :: "string list \<Rightarrow> bool prog" where
  "path_exists args w = (case os_path_exists args (fs w) of Inl e \<Rightarrow> Raise e w | Inr b \<Rightarrow> Return b w)"

definition makedirs :: "string \<Rightarrow> unit prog" where
  "makedirs p w = Return () (log (Ev_makedirs p) (w\<lparr>fs := os_makedirs p (fs w)\<rparr>))"

definition lift :: "error + 'a \<Rightarrow> 'a prog" where
  "lift r w = (case r of Inl e \<Rightarrow> Raise e w | Inr a \<Rightarrow> Return a w)"

fun for_each :: "('a \<Rightarrow> unit prog) \<Rightarrow> 'a list \<Rightarrow> unit prog" where
  "for_each body [] = Return ()"
| "for_each body (i # rest) = bind (body i) (\<lambda>_. for_each body rest)"

subsection \<open>The multi-scale orchestrator\<close>

text \<open>Lines 269--277: the per-scale table is cut down to the rows of the participants,
  its row count is checked against the participant table, and its rows are put in the
  participant table's order.\<close>

definition aligned_opnmf :: "table \<Rightarrow> table \<Rightarrow> error + table" where
  "aligned_opnmf df_participant df_opnmf =
     ebind (col ''participant_id'' df_opnmf) (\<lambda>_.
     ebind (col ''participant_id'' df_participant) (\<lambda>participant_id.
       let df1 = loc_isin ''participant_id'' participant_id df_opnmf in
       if length (rows df_participant) \<noteq> length (rows df1)
       then Inl (Exception ''The dimension of the participant_tsv and opNMF are not consistent!'')
       else
         ebind (set_index ''participant_id'' df1) (\<lambda>df2.
         ebind (reindex participant_id df2) (\<lambda>df3.
           reset_index df3))))"

text \<open>Lines 278--281: the \<^verbatim>\<open>path\<close> column receives the participants' diagnoses and is
  renamed to \<^verbatim>\<open>diagnosis\<close>.\<close>

definition with_diagnosis :: "table \<Rightarrow> table \<Rightarrow> error + table" where
  "with_diagnosis df_participant df_opnmf =
     ebind (col ''diagnosis'' df_participant) (\<lambda>diagnosis_list.
     ebind (set_column ''path'' diagnosis_list df_opnmf) (\<lambda>df5.
       Inr (rename_column ''path'' ''diagnosis'' df5)))"

definition opnmf_component_table :: "table \<Rightarrow> table \<Rightarrow> error + table" where
  "opnmf_component_table df_participant df_opnmf =
     ebind (aligned_opnmf df_participant df_opnmf) (with_diagnosis df_participant)"

definition component_output_dir :: "string \<Rightarrow> int \<Rightarrow> string" where
  "component_output_dir output_dir i = os_path_join output_dir [''component_'' @ str_int i]"

definition opnmf_tsv :: "string \<Rightarrow> int \<Rightarrow> string" where
  "opnmf_tsv opnmf_dir i =
     os_path_join opnmf_dir [''NMF'', ''component_'' @ str_int i, ''atlas_components_signal.tsv'']"

definition opnmf_component_tsv :: "string \<Rightarrow> int \<Rightarrow> string" where
  "opnmf_component_tsv output_dir i =
     os_path_join output_dir [''intermediate'', ''opnmf_component_'' @ str_int i @ ''.tsv'']"

text \<open>Lines 291--292: the per-scale classification, as the orchestrator calls it. The call
  is recorded in the trace with its arguments, and then made.\<close>

definition scale_classification ::
  "env \<Rightarrow> string \<Rightarrow> int \<Rightarrow> int \<Rightarrow> string \<Rightarrow> bool \<Rightarrow> int \<Rightarrow> bool \<Rightarrow> unit prog" where
  "scale_classification E output_dir i cv_repetition cv_strategy class_weight_balanced n_threads verbose w =
     classification_roi E (opnmf_component_tsv output_dir i) (component_output_dir output_dir i)
       cv_repetition cv_strategy class_weight_balanced n_threads (Some 0) verbose
       (log (Ev_classification_roi
              \<lparr>rc_feature_tsv = opnmf_component_tsv output_dir i,
               rc_output_dir = component_output_dir output_dir i,
               rc_cv_repetition = cv_repetition, rc_cv_strategy = cv_strategy,
               rc_class_weight_balanced = class_weight_balanced, rc_n_threads = n_threads,
               rc_seed = Some 0, rc_verbose = verbose\<rparr>) w)"

text \<open>\<^verbatim>\<open>if not os.path.exists(p): os.makedirs(p)\<close>, as lines 253--254, 257--258 and 264--265
  have it.\<close>

definition ensure_dir :: "string \<Rightarrow> unit prog" where
  "ensure_dir p = bind (path_exists [p]) (\<lambda>there. if \<not> there then makedirs p else Return ())"

text \<open>Lines 262--292: the body of the loop over \<^verbatim>\<open>components_list\<close>.\<close>

definition component_body ::
  "env \<Rightarrow> table \<Rightarrow> string \<Rightarrow> string \<Rightarrow> int \<Rightarrow> string \<Rightarrow> bool \<Rightarrow> int \<Rightarrow> bool \<Rightarrow> int \<Rightarrow> unit prog" where
  "component_body E df_participant opnmf_dir output_dir cv_repetition cv_strategy
       class_weight_balanced n_threads verbose i =
     bind (ensure_dir (component_output_dir output_dir i)) (\<lambda>_.
     bind (read_csv (opnmf_tsv opnmf_dir i)) (\<lambda>df_opnmf.
     bind (lift (opnmf_component_table df_participant df_opnmf)) (\<lambda>df.
     bind (to_csv df (opnmf_component_tsv output_dir i)) (\<lambda>_.
     bind (path_exists [component_output_dir output_dir i, ''classification'', ''mean_results.tsv''])
       (\<lambda>present.
         if present then Return ()
         else scale_classification E output_dir i cv_repetition cv_strategy class_weight_balanced
                n_threads verbose)))))"

text \<open>Lines 294--305: the choice of the aggregator. The message of the last raise ends in
  the full-width exclamation mark U+FF01, three bytes in UTF-8.\<close>

definition ensemble_voting :: "env \<Rightarrow> string \<Rightarrow> string \<Rightarrow> int list \<Rightarrow> int \<Rightarrow> unit prog" where
  "ensemble_voting E voting_method output_dir components_list cv_repetition =
     (if voting_method = ''soft_voting'' then
        call_ext (Ev_voting soft_majority_voting output_dir components_list cv_repetition)
          (ext_voting E soft_majority_voting output_dir components_list cv_repetition)
      else if voting_method = ''hard_voting'' then
        call_ext (Ev_voting hard_majority_voting output_dir components_list cv_repetition)
          (ext_voting E hard_majority_voting output_dir components_list cv_repetition)
      else if voting_method = ''consensus_voting'' then
        call_ext (Ev_voting consensus_voting output_dir components_list cv_repetition)
          (ext_voting E consensus_voting output_dir components_list cv_repetition)
      else raise (Exception (''Method not implemented yet'' @ [CHR 0xEF, CHR 0xBC, CHR 0x81])))"

text \<open>Lines 250--258: the participant table is read and the two result folders are made.\<close>

definition prelude :: "string \<Rightarrow> string \<Rightarrow> table prog" where
  "prelude participant_tsv output_dir =
     bind (read_csv participant_tsv) (\<lambda>df_participant.
     bind (ensure_dir (os_path_join output_dir [''intermediate''])) (\<lambda>_.
     bind (ensure_dir (os_path_join output_dir [''ensemble''])) (\<lambda>_.
       Return df_participant)))"

definition classification_multiscale_opnmf ::
  "env \<Rightarrow> string \<Rightarrow> string \<Rightarrow> string \<Rightarrow> int list \<Rightarrow> int \<Rightarrow> string \<Rightarrow> string \<Rightarrow> bool \<Rightarrow> int \<Rightarrow> bool
     \<Rightarrow> unit prog" where
  "classification_multiscale_opnmf E participant_tsv opnmf_dir output_dir components_list
       cv_repetition cv_strategy voting_method class_weight_balanced n_threads verbose =
     (if cv_strategy \<noteq> ''hold_out''
      then raise (Exception ''Only support repetaed hold-out CV currently!'')
      else
        bind (prelude participant_tsv output_dir) (\<lambda>df_participant.
        bind (for_each (component_body E df_participant opnmf_dir output_dir cv_repetition
                          cv_strategy class_weight_balanced n_threads verbose) components_list) (\<lambda>_.
          ensemble_voting E voting_method output_dir components_list cv_repetition)))"

subsection \<open>Reading a trace\<close>

fun is_make_cv_partition :: "event \<Rightarrow> bool" where
  "is_make_cv_partition (Ev_make_cv_partition y s d r sd) = True"
| "is_make_cv_partition _ = False"


fun is_run :: "event \<Rightarrow> bool" where
  "is_run (Ev_run wfl) = True"
| "is_run _ = False"

fun is_voting :: "event \<Rightarrow> bool" where
  "is_voting (Ev_voting v d c r) = True"
| "is_voting _ = False"

fun is_classification_roi :: "event \<Rightarrow> bool" where
  "is_classification_roi (Ev_classification_roi c) = True"
| "is_classification_roi _ = False"

text \<open>The one event the data split step leaves in the trace, decided by the file system
  it is run in.\<close>

definition split_event :: "input_data \<Rightarrow> string \<Rightarrow> int \<Rightarrow> string \<Rightarrow> int option \<Rightarrow> world \<Rightarrow> event" where
  "split_event inp output_dir cv_repetition cv_strategy seed w =
     (if os_path_isfile (split_pickle output_dir cv_repetition) (fs w)
      then Ev_pickle_load (split_pickle output_dir cv_repetition)
      else Ev_make_cv_partition (get_y inp) cv_strategy output_dir cv_repetition seed)"

fun not_makedirs :: "event \<Rightarrow> bool" where
  "not_makedirs (Ev_makedirs p) = False"
| "not_makedirs _ = True"

text \<open>A row with the cell at position \<open>k\<close> moved to the front, as \<^verbatim>\<open>set_index\<close> followed by
  \<^verbatim>\<open>reset_index\<close> leaves it.\<close>

definition id_first :: "nat \<Rightarrow> 'a list \<Rightarrow> 'a list" where
  "id_first k r = r ! k # drop_at k r"

text \<open>
  The per-scale tables that lines 269--277 accept: both tables have a \<^verbatim>\<open>participant_id\<close>
  column, the rows of the per-scale table that belong to participants are as many as the
  participant table has rows, and their ids stand in the participants' order already or
  are not repeated (what \<^verbatim>\<open>reindex\<close> asks for).
\<close>

definition alignable :: "table \<Rightarrow> table \<Rightarrow> bool" where
  "alignable df_participant df_opnmf =
     (''participant_id'' \<in> set (columns df_opnmf) \<and> ''participant_id'' \<in> set (columns df_participant)
      \<and> (let ids = map (\<lambda>r. r ! index_of ''participant_id'' (columns df_participant))
                       (rows df_participant);
               labels = map (\<lambda>r. r ! index_of ''participant_id'' (columns df_opnmf))
                          (rows (loc_isin ''participant_id'' ids df_opnmf))
           in length labels = length ids \<and> (labels = ids \<or> distinct labels)))"

text \<open>The events a call has added to the trace.\<close>

definition events_since :: "world \<Rightarrow> world \<Rightarrow> event list" where
  "events_since w w' = drop (length (trace w)) (trace w')"

fun runs_with :: "split_index \<Rightarrow> event \<Rightarrow> bool" where
  "runs_with s (Ev_run wfl) = (wf_split_index wfl = s)"
| "runs_with s _ = False"


text \<open>A path that is there, and the world \<^verbatim>\<open>ensure_dir\<close> leaves.\<close>

definition present :: "string \<Rightarrow> fsys \<Rightarrow> bool" where
  "present p f = (os_path_isfile p f \<or> p \<in> set (dirs f))"

definition ensured :: "string \<Rightarrow> world \<Rightarrow> world" where
  "ensured p v = (if present p (fs v) then v
                  else log (Ev_makedirs p) (v\<lparr>fs := os_makedirs p (fs v)\<rparr>))"

subsection \<open>Worlds for the examples\<close>

text \<open>An environment in which every imported function returns, and leaves the file
  system as it found it.\<close>

definition example_env :: env where
  "example_env =
     \<lparr>ext_Input = (\<lambda>k tsv f. (Inr [''CN'', ''AD'', ''CN'', ''AD''], f)),
      ext_make_cv_partition = (\<lambda>y strategy out rep seed f. (Inr [([0, 1], [2, 3])], f)),
      ext_run = (\<lambda>wfl f. (Inr (), f)),
      ext_voting = (\<lambda>v out comps rep f. (Inr (), f))\<rparr>"

text \<open>A world in which an earlier run has left its split under \<^verbatim>\<open>out\<close>.\<close>

definition cached_world :: world where
  "cached_world =
     \<lparr>fs = \<lparr>files = [(''out/data_split_stratified_5-holdout.pkl'', Pickle [([2, 3], [0, 1])])],
             dirs = [''out'']\<rparr>,
      trace = []\<rparr>"


definition participants :: table where
  "participants =
     \<lparr>columns = [''participant_id'', ''session_id'', ''diagnosis''],
      rows = [[Cell ''sub-01'', Cell ''ses-M00'', Cell ''CN''],
              [Cell ''sub-02'', Cell ''ses-M00'', Cell ''AD'']]\<rparr>"

text \<open>Per-scale tables: one laid out as opNMF writes it, with one subject more than the
  participant table and the rows in another order; one that lacks a participant; one
  without a \<^verbatim>\<open>path\<close> column.\<close>

definition signal :: table where
  "signal =
     \<lparr>columns = [''participant_id'', ''session_id'', ''path'', ''component_1'', ''component_2''],
      rows = [[Cell ''sub-02'', Cell ''ses-M00'', Cell ''/data/sub-02.nii'', Cell ''0.7'', Cell ''0.1''],
              [Cell ''sub-03'', Cell ''ses-M00'', Cell ''/data/sub-03.nii'', Cell ''0.5'', Cell ''0.5''],
              [Cell ''sub-01'', Cell ''ses-M00'', Cell ''/data/sub-01.nii'', Cell ''0.2'', Cell ''0.9'']]\<rparr>"

definition signal_short :: table where
  "signal_short =
     \<lparr>columns = [''participant_id'', ''session_id'', ''path'', ''component_1'', ''component_2''],
      rows = [[Cell ''sub-02'', Cell ''ses-M00'', Cell ''/data/sub-02.nii'', Cell ''0.7'', Cell ''0.1''],
              [Cell ''sub-03'', Cell ''ses-M00'', Cell ''/data/sub-03.nii'', Cell ''0.5'', Cell ''0.5'']]\<rparr>"

definition signal_no_path :: table where
  "signal_no_path =
     \<lparr>columns = [''participant_id'', ''session_id'', ''component_1'', ''component_2''],
      rows = [[Cell ''sub-02'', Cell ''ses-M00'', Cell ''0.7'', Cell ''0.1''],
              [Cell ''sub-01'', Cell ''ses-M00'', Cell ''0.2'', Cell ''0.9'']]\<rparr>"

text \<open>A world with the participant table, the per-scale table of the scale with two components, and the
  summary that an earlier run of that scale has left.\<close>

definition opnmf_world :: "table \<Rightarrow> world" where
  "opnmf_world sig =
     \<lparr>fs = \<lparr>files = [(''participants.tsv'', Tsv participants),
                     (''opnmf/NMF/component_2/atlas_components_signal.tsv'', Tsv sig),
                     (''out/component_2/classification/mean_results.tsv'', Other ''mean_results'')],
             dirs = [''out'', ''out/component_2'', ''out/component_2/classification'']\<rparr>,
      trace = []\<rparr>"

text \<open>A world before any run: the participant table and the per-scale tables of two scales,
  and no results.\<close>

definition fresh_world :: "table \<Rightarrow> world" where
  "fresh_world sig =
     \<lparr>fs = \<lparr>files = [(''participants.tsv'', Tsv participants),
                     (''opnmf/NMF/component_2/atlas_components_signal.tsv'', Tsv sig),
                     (''opnmf/NMF/component_4/atlas_components_signal.tsv'', Tsv sig)],
             dirs = [''out'']\<rparr>,
      trace = []\<rparr>"


definition component_table :: table where
  "component_table =
     \<lparr>columns = [''participant_id'', ''session_id'', ''diagnosis'', ''component_1'', ''component_2''],
      rows = [[Cell ''sub-01'', Cell ''ses-M00'', Cell ''CN'', Cell ''0.2'', Cell ''0.9''],
              [Cell ''sub-02'', Cell ''ses-M00'', Cell ''AD'', Cell ''0.7'', Cell ''0.1'']]\<rparr>"

section \<open>Properties\<close>

subsection \<open>Composition and traces\<close>

lemma bind_Raise: "m w = Raise e w' \<Longrightarrow> bind m k w = Raise e w'"
  by (simp add: bind_def)

lemma bind_Return: "m w = Return a w' \<Longrightarrow> bind m k w = k a w'"
  by (simp add: bind_def)

lemma call_ext_cases:
  obtains (raise) e f' where "f (fs w) = (Inl e, f')"
      "call_ext ev f w = Raise e (log ev (w\<lparr>fs := f'\<rparr>))"
  | (return) a f' where "f (fs w) = (Inr a, f')"
      "call_ext ev f w = Return a (log ev (w\<lparr>fs := f'\<rparr>))"
proof (cases "f (fs w)")
  case (Pair r f')
  then show ?thesis
    by (cases r) (auto simp: call_ext_def intro: raise return)
qed

lemma trace_call_ext: "trace (world_of (call_ext ev f w)) = trace w @ [ev]"
  by (rule call_ext_cases [of f w ev]) (simp_all add: log_def)

lemma new_input_cases:
  obtains (raise) e w1 where "new_input E k tsv w = Raise e w1"
      "trace w1 = trace w @ [Ev_input k tsv]"
  | (return) y w1 where "new_input E k tsv w = Return (Input_data k tsv y) w1"
      "trace w1 = trace w @ [Ev_input k tsv]"
  by (rule call_ext_cases [of "ext_Input E k tsv" w "Ev_input k tsv"])
     (auto simp: new_input_def bind_def log_def)

lemma trace_new_input: "trace (world_of (new_input E k tsv w)) = trace w @ [Ev_input k tsv]"
  by (rule new_input_cases [of E k tsv w]) simp_all

lemma trace_pickle_load: "trace (world_of (pickle_load p w)) = trace w @ [Ev_pickle_load p]"
  by (simp add: pickle_load_def log_def split: option.splits content.splits)

lemma trace_run: "trace (world_of (run E wfl w)) = trace w @ [Ev_run wfl]"
  by (simp add: run_def trace_call_ext)

lemma trace_data_split:
  "trace (world_of (data_split E inp out rep strat seed w)) =
     trace w @ [split_event inp out rep strat seed w]"
  by (simp add: data_split_def split_event_def trace_pickle_load trace_call_ext)

subsection \<open>The summary check of the orchestrator\<close>

text \<open>
  C1. A scale whose summary \<^verbatim>\<open>component_2/classification/mean_results.tsv\<close> is already
  there should be skipped and the run should go on to the vote. Run on such a world, the
  orchestrator instead stops at the check itself with a \<^verbatim>\<open>TypeError\<close>: the scale is
  neither skipped nor classified, and no aggregator is called.
\<close>

theorem summary_check_raises:
  "os_path_isfile ''out/component_2/classification/mean_results.tsv'' (fs (opnmf_world signal))
   \<and> raised (classification_multiscale_opnmf example_env ''participants.tsv'' ''opnmf'' ''out'' [2] 5
        ''hold_out'' ''hard_voting'' True 8 False (opnmf_world signal))
       = Some (TypeError ''exists() takes 1 positional argument'')
   \<and> filter is_voting (trace (world_of
        (classification_multiscale_opnmf example_env ''participants.tsv'' ''opnmf'' ''out'' [2] 5
           ''hold_out'' ''hard_voting'' True 8 False (opnmf_world signal)))) = []"
  by code_simp

subsection \<open>The single-scale entry points\<close>

lemma not_run_split_event [simp]: "\<not> is_run (split_event inp out rep strat seed w)"
  by (simp add: split_event_def)

lemma entry_raise:
  "\<exists>e w'. bind (new_input E kind tsv)
             (\<lambda>i. bind (data_split E i out rep strat seed) (\<lambda>s. raise X)) w = Raise e w'
          \<and> filter is_run (trace w') = filter is_run (trace w)"
proof (cases "new_input E kind tsv w")
  case (Raise e w1)
  then show ?thesis
    using trace_new_input [of E kind tsv w] by (simp add: bind_def)
next
  case (Return inp w1)
  then have t1: "trace w1 = trace w @ [Ev_input kind tsv]"
    using trace_new_input [of E kind tsv w] by simp
  show ?thesis
  proof (cases "data_split E inp out rep strat seed w1")
    case (Raise e w2)
    then show ?thesis
      using Return t1 trace_data_split [of E inp out rep strat seed w1] by (simp add: bind_def)
  next
    case Ret: (Return s w2)
    then show ?thesis
      using Return t1 trace_data_split [of E inp out rep strat seed w1]
      by (simp add: bind_def raise_def)
  qed
qed

lemma entry_raise_at:
  "new_input E kind tsv w = Return inp w1 \<Longrightarrow> data_split E inp out rep strat seed w1 = Return s w2 \<Longrightarrow>
   bind (new_input E kind tsv) (\<lambda>i. bind (data_split E i out rep strat seed) (\<lambda>s. raise X)) w
     = Raise X w2"
  by (simp add: bind_def raise_def)

lemma str_nat_digit: "n < 10 \<Longrightarrow> str_nat n = [digit_char n]"
  by (simp add: str_nat.simps)

lemma split_pickle_out_5: "split_pickle ''out'' 5 = ''out/data_split_stratified_5-holdout.pkl''"
  by (simp add: split_pickle_def os_path_join_def join2_def str_int_def str_nat_digit digit_char_def)

lemma example_input:
  "new_input example_env k tsv w
     = Return (Input_data k tsv [''CN'', ''AD'', ''CN'', ''AD'']) (log (Ev_input k tsv) w)"
  by (simp add: new_input_def bind_def call_ext_def example_env_def)

lemma cached_split:
  "data_split E inp ''out'' 5 strat seed (log ev cached_world)
     = Return [([2, 3], [0, 1])]
         (log (Ev_pickle_load ''out/data_split_stratified_5-holdout.pkl'') (log ev cached_world))"
  by (simp add: data_split_def split_pickle_out_5 os_path_isfile_def cached_world_def
      pickle_load_def log_def)

text \<open>
  C8. Called with \<^verbatim>\<open>cv_strategy='k_fold'\<close>, \<^verbatim>\<open>classification_roi_feature_selection\<close> and
  \<^verbatim>\<open>classification_voxel_feature_selection\<close> always end in an exception and never run a
  classification workflow (constructing a workflow and running it is the one event
  \<open>Ev_run\<close>). When the input loads and the data split step returns, the exception is the
  module's own, raised in the world the data split step left.
\<close>

theorem k_fold_with_feature_selection_raises:
  "(\<exists>e w'. classification_roi_feature_selection E tsv out rep ''k_fold'' cwb fsm top_k thr seed vb w
              = Raise e w'
          \<and> filter is_run (trace w') = filter is_run (trace w))
   \<and> (\<exists>e w'. classification_voxel_feature_selection E tsv out rep ''k_fold'' cwb fsm top_k thr seed vb w
              = Raise e w'
          \<and> filter is_run (trace w') = filter is_run (trace w))
   \<and> (\<forall>inp w1 s w2. new_input E RB tsv w = Return inp w1
          \<longrightarrow> data_split E inp out rep ''k_fold'' seed w1 = Return s w2
          \<longrightarrow> classification_roi_feature_selection E tsv out rep ''k_fold'' cwb fsm top_k thr seed vb w
              = Raise (Exception
                  ''Non-nested feature selection is currently only supported for repeated hold-out CV'') w2)
   \<and> (\<forall>inp w1 s w2. new_input E VB tsv w = Return inp w1
          \<longrightarrow> data_split E inp out rep ''k_fold'' seed w1 = Return s w2
          \<longrightarrow> classification_voxel_feature_selection E tsv out rep ''k_fold'' cwb fsm top_k thr seed vb w
              = Raise (Exception
                  ''Non-nested feature selection is currently only supported for repeated hold-out CV'') w2)"
  unfolding classification_roi_feature_selection_def classification_voxel_feature_selection_def
  by (simp add: entry_raise entry_raise_at)

theorem k_fold_with_feature_selection_raises_witness:
  "classification_roi_feature_selection example_env ''features.tsv'' ''out'' 5 ''k_fold'' True ''RFE'' 50 8
       None False cached_world
     = Raise (Exception
         ''Non-nested feature selection is currently only supported for repeated hold-out CV'')
       (log (Ev_pickle_load ''out/data_split_stratified_5-holdout.pkl'')
         (log (Ev_input RB ''features.tsv'') cached_world))
   \<and> classification_voxel_feature_selection example_env ''images.tsv'' ''out'' 5 ''k_fold'' True ''RFE'' 50 8
       None False cached_world
     = Raise (Exception
         ''Non-nested feature selection is currently only supported for repeated hold-out CV'')
       (log (Ev_pickle_load ''out/data_split_stratified_5-holdout.pkl'')
         (log (Ev_input VB ''images.tsv'') cached_world))"
proof -
  have roi: "new_input example_env RB ''features.tsv'' cached_world = Return i w1
     \<Longrightarrow> data_split example_env i ''out'' 5 ''k_fold'' None w1 = Return s w2
     \<Longrightarrow> classification_roi_feature_selection example_env ''features.tsv'' ''out'' 5 ''k_fold'' True
           ''RFE'' 50 8 None False cached_world
         = Raise (Exception
             ''Non-nested feature selection is currently only supported for repeated hold-out CV'') w2"
    for i w1 s w2
    using k_fold_with_feature_selection_raises
      [of example_env "''features.tsv''" "''out''" 5 True "''RFE''" 50 8 None False cached_world]
    by blast
  have voxel: "new_input example_env VB ''images.tsv'' cached_world = Return i w1
     \<Longrightarrow> data_split example_env i ''out'' 5 ''k_fold'' None w1 = Return s w2
     \<Longrightarrow> classification_voxel_feature_selection example_env ''images.tsv'' ''out'' 5 ''k_fold'' True
           ''RFE'' 50 8 None False cached_world
         = Raise (Exception
             ''Non-nested feature selection is currently only supported for repeated hold-out CV'') w2"
    for i w1 s w2
    using k_fold_with_feature_selection_raises
      [of example_env "''images.tsv''" "''out''" 5 True "''RFE''" 50 8 None False cached_world]
    by blast
  show ?thesis
    using roi [OF example_input cached_split] voxel [OF example_input cached_split] by simp
qed

text \<open>
  C5, as stated: an unsupported \<^verbatim>\<open>cv_strategy\<close> is refused before anything is computed.
  It is not: with a split persisted under \<^verbatim>\<open>out\<close>, a call with the strategy \<^verbatim>\<open>loo\<close>
  constructs the input and loads the pickle, and only then raises.
\<close>

theorem unsupported_strategy_counterexample:
  "classification_roi example_env ''features.tsv'' ''out'' 5 ''loo'' True 8 None False cached_world
     = Raise (Exception ''CV methods have not been implemented'')
         (cached_world\<lparr>trace := [Ev_input RB ''features.tsv'',
                                 Ev_pickle_load ''out/data_split_stratified_5-holdout.pkl'']\<rparr>)"
  by code_simp

text \<open>
  C5, amended. With a \<^verbatim>\<open>cv_strategy\<close> other than \<^verbatim>\<open>hold_out\<close> and \<^verbatim>\<open>k_fold\<close>,
  \<^verbatim>\<open>classification_roi\<close> and \<^verbatim>\<open>classification_voxel\<close> always end in an exception and never
  run a classification workflow. The module's own check comes last: when the input loads
  and the data split step returns, \<^verbatim>\<open>CV methods have not been implemented\<close> is raised in
  the world that step left, whose trace holds the construction of the input and then the
  load of the persisted split or the call of \<^verbatim>\<open>make_cv_partition\<close> with that strategy.
\<close>

theorem unsupported_strategy_raises_last:
  assumes "cv_strategy \<noteq> ''hold_out''" and "cv_strategy \<noteq> ''k_fold''"
  shows "(\<exists>e w'. classification_roi E tsv out rep cv_strategy cwb thr seed vb w = Raise e w'
            \<and> filter is_run (trace w') = filter is_run (trace w))
     \<and> (\<exists>e w'. classification_voxel E tsv out rep cv_strategy cwb thr seed vb w = Raise e w'
            \<and> filter is_run (trace w') = filter is_run (trace w))
     \<and> (\<forall>inp w1 s w2. new_input E RB tsv w = Return inp w1
            \<longrightarrow> data_split E inp out rep cv_strategy seed w1 = Return s w2
            \<longrightarrow> classification_roi E tsv out rep cv_strategy cwb thr seed vb w
                  = Raise (Exception ''CV methods have not been implemented'') w2
                \<and> trace w2 = trace w @ [Ev_input RB tsv, split_event inp out rep cv_strategy seed w1])
     \<and> (\<forall>inp w1 s w2. new_input E VB tsv w = Return inp w1
            \<longrightarrow> data_split E inp out rep cv_strategy seed w1 = Return s w2
            \<longrightarrow> classification_voxel E tsv out rep cv_strategy cwb thr seed vb w
                  = Raise (Exception ''CV methods have not been implemented'') w2
                \<and> trace w2 = trace w @ [Ev_input VB tsv, split_event inp out rep cv_strategy seed w1])"
proof -
  have tr: "trace w2 = trace w @ [Ev_input k tsv, split_event inp out rep cv_strategy seed w1]"
    if "new_input E k tsv w = Return inp w1" "data_split E inp out rep cv_strategy seed w1 = Return s w2"
    for k inp w1 s w2
    using that trace_new_input [of E k tsv w] trace_data_split [of E inp out rep cv_strategy seed w1]
    by simp
  show ?thesis
    unfolding classification_roi_def classification_voxel_def
    using assms by (simp add: entry_raise entry_raise_at tr)
qed

theorem unsupported_strategy_raises_last_witness:
  "classification_roi example_env ''features.tsv'' ''out'' 5 ''loo'' True 8 None False cached_world
     = Raise (Exception ''CV methods have not been implemented'')
         (log (Ev_pickle_load ''out/data_split_stratified_5-holdout.pkl'')
           (log (Ev_input RB ''features.tsv'') cached_world))
   \<and> classification_voxel example_env ''images.tsv'' ''out'' 5 ''loo'' True 8 None False cached_world
     = Raise (Exception ''CV methods have not been implemented'')
         (log (Ev_pickle_load ''out/data_split_stratified_5-holdout.pkl'')
           (log (Ev_input VB ''images.tsv'') cached_world))"
proof -
  have ne: "''loo'' \<noteq> ''hold_out''" "''loo'' \<noteq> ''k_fold''"
    by simp_all
  have roi: "new_input example_env RB ''features.tsv'' cached_world = Return i w1
     \<Longrightarrow> data_split example_env i ''out'' 5 ''loo'' None w1 = Return s w2
     \<Longrightarrow> classification_roi example_env ''features.tsv'' ''out'' 5 ''loo'' True 8 None False cached_world
         = Raise (Exception ''CV methods have not been implemented'') w2"
    for i w1 s w2
    using unsupported_strategy_raises_last [OF ne,
        of example_env "''features.tsv''" "''out''" 5 True 8 None False cached_world]
    by blast
  have voxel: "new_input example_env VB ''images.tsv'' cached_world = Return i w1
     \<Longrightarrow> data_split example_env i ''out'' 5 ''loo'' None w1 = Return s w2
     \<Longrightarrow> classification_voxel example_env ''images.tsv'' ''out'' 5 ''loo'' True 8 None False cached_world
         = Raise (Exception ''CV methods have not been implemented'') w2"
    for i w1 s w2
    using unsupported_strategy_raises_last [OF ne,
        of example_env "''images.tsv''" "''out''" 5 True 8 None False cached_world]
    by blast
  show ?thesis
    using roi [OF example_input cached_split] voxel [OF example_input cached_split] by simp
qed

subsection \<open>The name of the persisted split\<close>

lemma distinct_digits: "distinct ''0123456789''"
  by simp

lemma length_digits: "length ''0123456789'' = 10"
  by simp

lemma digit_in_range: "a < 10 \<Longrightarrow> a < length ''0123456789''"
  by (simp only: length_digits)

lemma digit_char_inj: "a < 10 \<Longrightarrow> b < 10 \<Longrightarrow> digit_char a = digit_char b \<Longrightarrow> a = b"
  unfolding digit_char_def
  using nth_eq_iff_index_eq [OF distinct_digits digit_in_range digit_in_range] by blast

lemma str_nat_nonempty: "str_nat n \<noteq> []"
  by (subst str_nat.simps) simp

lemma digit_char_not_minus: "d < 10 \<Longrightarrow> digit_char d \<noteq> CHR ''-''"
proof -
  assume "d < 10"
  then have "''0123456789'' ! d \<in> set ''0123456789''"
    by (intro nth_mem) simp
  moreover have "CHR ''-'' \<notin> set ''0123456789''"
    by simp
  ultimately show ?thesis
    unfolding digit_char_def by metis
qed

lemma hd_str_nat_not_minus: "hd (str_nat n) \<noteq> CHR ''-''"
proof (induction n rule: str_nat.induct)
  case (1 n)
  show ?case
  proof (cases "n < 10")
    case True
    then show ?thesis
      by (subst str_nat.simps) (simp add: digit_char_not_minus)
  next
    case False
    then show ?thesis
      using 1 by (subst str_nat.simps) (simp add: str_nat_nonempty)
  qed
qed

lemma str_nat_inj: "str_nat n = str_nat m \<Longrightarrow> n = m"
proof (induction n arbitrary: m rule: str_nat.induct)
  case (1 n)
  show ?case
  proof (cases "n < 10")
    case n: True
    show ?thesis
    proof (cases "m < 10")
      case True
      then show ?thesis
        using n "1.prems" by (simp add: str_nat_digit digit_char_inj)
    next
      case False
      then have "str_nat m = str_nat (m div 10) @ [digit_char (m mod 10)]"
        by (subst str_nat.simps) simp
      then show ?thesis
        using n "1.prems" str_nat_nonempty [of "m div 10"] by (simp add: str_nat_digit)
    qed
  next
    case n: False
    then have en: "str_nat n = str_nat (n div 10) @ [digit_char (n mod 10)]"
      by (subst str_nat.simps) simp
    show ?thesis
    proof (cases "m < 10")
      case True
      then show ?thesis
        using en "1.prems" str_nat_nonempty [of "n div 10"] by (simp add: str_nat_digit)
    next
      case False
      then have em: "str_nat m = str_nat (m div 10) @ [digit_char (m mod 10)]"
        by (subst str_nat.simps) simp
      from en em "1.prems" have a: "str_nat (n div 10) = str_nat (m div 10)"
        and b: "digit_char (n mod 10) = digit_char (m mod 10)"
        by simp_all
      from "1.IH" [OF n a] have d: "n div 10 = m div 10" .
      from b have r: "n mod 10 = m mod 10"
        by (rule digit_char_inj [rotated 2]) simp_all
      from d r show ?thesis
        by (metis div_mult_mod_eq)
    qed
  qed
qed

lemma str_int_inj: "str_int i = str_int j \<Longrightarrow> i = j"
proof -
  assume eq: "str_int i = str_int j"
  have neg: "CHR ''-'' # str_nat a \<noteq> str_nat b" for a b
    using hd_str_nat_not_minus [of b] by (metis list.sel(1))
  show "i = j"
  proof (cases "i < 0")
    case i: True
    show ?thesis
    proof (cases "j < 0")
      case True
      then have "nat (- i) = nat (- j)"
        using i eq by (simp add: str_int_def str_nat_inj)
      then show ?thesis using i True by simp
    next
      case False
      then show ?thesis using i eq neg by (simp add: str_int_def)
    qed
  next
    case i: False
    show ?thesis
    proof (cases "j < 0")
      case True
      then show ?thesis using i eq neg [of "nat (- j)" "nat i"] by (simp add: str_int_def)
    next
      case False
      then have "nat i = nat j"
        using i eq by (simp add: str_int_def str_nat_inj)
      then show ?thesis using i False by simp
    qed
  qed
qed

lemma join2_inj:
  assumes "a \<noteq> []" "b \<noteq> []" "hd a \<noteq> CHR ''/''" "hd b \<noteq> CHR ''/''" "join2 p a = join2 p b"
  shows "a = b"
proof -
  have "join2 p a = (if p = [] \<or> last p = CHR ''/'' then p @ a else p @ ''/'' @ a)"
    using assms(3) by (simp add: join2_def)
  moreover have "join2 p b = (if p = [] \<or> last p = CHR ''/'' then p @ b else p @ ''/'' @ b)"
    using assms(4) by (simp add: join2_def)
  ultimately show ?thesis
    using assms(5) by (simp split: if_splits)
qed

lemma split_pickle_inj: "split_pickle out r1 = split_pickle out r2 \<Longrightarrow> r1 = r2"
proof -
  let ?a = "''data_split_stratified_'' @ str_int r1 @ ''-holdout.pkl''"
  let ?b = "''data_split_stratified_'' @ str_int r2 @ ''-holdout.pkl''"
  assume "split_pickle out r1 = split_pickle out r2"
  then have j: "join2 out ?a = join2 out ?b"
    by (simp only: split_pickle_def os_path_join_def foldl.simps)
  have "?a = ?b"
    by (rule join2_inj [OF _ _ _ _ j]) simp_all
  then show ?thesis
    by (simp add: str_int_inj)
qed

lemma events_since_append [simp]: "trace w' = trace w @ es \<Longrightarrow> events_since w w' = es"
  by (simp add: events_since_def)



lemma run_rest:
  "\<exists>rest. trace (world_of (run E wfl v)) = trace v @ rest \<and> list_all (runs_with (wf_split_index wfl)) rest"
  by (simp add: trace_run)







text \<open>
  C3, as stated: the persisted split is keyed by strategy, repetition count and seed, so
  that a split cached for one seed is not reused for another. It is reused: with a split
  persisted under \<^verbatim>\<open>out\<close>, the calls with seed 0 and with seed 1 load the same file and
  run the same workflow on the same split.
\<close>

theorem split_cache_ignores_seed_counterexample:
  "trace (world_of (classification_roi example_env ''features.tsv'' ''out'' 5 ''hold_out'' True 8
        (Some 0) False cached_world))
     = [Ev_input RB ''features.tsv'',
        Ev_pickle_load ''out/data_split_stratified_5-holdout.pkl'',
        Ev_run \<lparr>wf_class = RB_RepeatedHoldOut_DualSVM_Classification,
                wf_input = Input_data RB ''features.tsv'' [''CN'', ''AD'', ''CN'', ''AD''],
                wf_split_index = [([2, 3], [0, 1])], wf_output_dir = ''out/classification'',
                wf_n_threads = 8, wf_n_iterations = 5, wf_balanced = True,
                wf_feature_selection = None, wf_verbose = False\<rparr>]
   \<and> trace (world_of (classification_roi example_env ''features.tsv'' ''out'' 5 ''hold_out'' True 8
        (Some 1) False cached_world))
     = [Ev_input RB ''features.tsv'',
        Ev_pickle_load ''out/data_split_stratified_5-holdout.pkl'',
        Ev_run \<lparr>wf_class = RB_RepeatedHoldOut_DualSVM_Classification,
                wf_input = Input_data RB ''features.tsv'' [''CN'', ''AD'', ''CN'', ''AD''],
                wf_split_index = [([2, 3], [0, 1])], wf_output_dir = ''out/classification'',
                wf_n_threads = 8, wf_n_iterations = 5, wf_balanced = True,
                wf_feature_selection = None, wf_verbose = False\<rparr>]"
  by code_simp

lemma entry_seed:
  assumes "new_input E kind tsv w = Return inp w1"
    and "os_path_isfile (split_pickle out rep) (fs w1)"
  shows "bind (new_input E kind tsv) (\<lambda>i. bind (data_split E i out rep strat seed1) (k i)) w
       = bind (new_input E kind tsv) (\<lambda>i. bind (data_split E i out rep strat seed2) (k i)) w"
  using assms by (simp add: bind_def data_split_def)

text \<open>
  C3, amended. The file consulted is named by \<^verbatim>\<open>output_dir\<close> and \<^verbatim>\<open>cv_repetition\<close>
  alone. Under one \<^verbatim>\<open>output_dir\<close>, different repetition counts name different files; the
  seed is no part of the name, and when the file is there two calls that differ only in
  their seed do the same.
\<close>

theorem split_pickle_keyed_by_repetition:
  "(split_pickle out r1 = split_pickle out r2 \<longleftrightarrow> r1 = r2)
   \<and> (\<forall>inp w1. new_input E RB tsv w = Return inp w1
         \<longrightarrow> os_path_isfile (split_pickle out rep) (fs w1)
         \<longrightarrow> classification_roi E tsv out rep strat cwb thr seed1 vb w
               = classification_roi E tsv out rep strat cwb thr seed2 vb w
             \<and> classification_roi_feature_selection E tsv out rep strat cwb fsm top_k thr seed1 vb w
               = classification_roi_feature_selection E tsv out rep strat cwb fsm top_k thr seed2 vb w)
   \<and> (\<forall>inp w1. new_input E VB tsv w = Return inp w1
         \<longrightarrow> os_path_isfile (split_pickle out rep) (fs w1)
         \<longrightarrow> classification_voxel E tsv out rep strat cwb thr seed1 vb w
               = classification_voxel E tsv out rep strat cwb thr seed2 vb w
             \<and> classification_voxel_feature_selection E tsv out rep strat cwb fsm top_k thr seed1 vb w
               = classification_voxel_feature_selection E tsv out rep strat cwb fsm top_k thr seed2 vb w)"
proof -
  have a: "split_pickle out r1 = split_pickle out r2 \<longleftrightarrow> r1 = r2"
    using split_pickle_inj by blast
  have b: "(\<forall>inp w1. new_input E RB tsv w = Return inp w1
         \<longrightarrow> os_path_isfile (split_pickle out rep) (fs w1)
         \<longrightarrow> classification_roi E tsv out rep strat cwb thr seed1 vb w
               = classification_roi E tsv out rep strat cwb thr seed2 vb w
             \<and> classification_roi_feature_selection E tsv out rep strat cwb fsm top_k thr seed1 vb w
               = classification_roi_feature_selection E tsv out rep strat cwb fsm top_k thr seed2 vb w)
   \<and> (\<forall>inp w1. new_input E VB tsv w = Return inp w1
         \<longrightarrow> os_path_isfile (split_pickle out rep) (fs w1)
         \<longrightarrow> classification_voxel E tsv out rep strat cwb thr seed1 vb w
               = classification_voxel E tsv out rep strat cwb thr seed2 vb w
             \<and> classification_voxel_feature_selection E tsv out rep strat cwb fsm top_k thr seed1 vb w
               = classification_voxel_feature_selection E tsv out rep strat cwb fsm top_k thr seed2 vb w)"
    unfolding classification_roi_def classification_roi_feature_selection_def
      classification_voxel_def classification_voxel_feature_selection_def
    by (intro conjI allI impI entry_seed; assumption)
  show ?thesis
    by (rule conjI [OF a b])
qed

theorem split_pickle_keyed_by_repetition_witness:
  "split_pickle ''out'' 5 \<noteq> split_pickle ''out'' 10
   \<and> classification_roi example_env ''features.tsv'' ''out'' 5 ''hold_out'' True 8 (Some 0) False cached_world
     = classification_roi example_env ''features.tsv'' ''out'' 5 ''hold_out'' True 8 (Some 1) False cached_world"
proof -
  have c: "os_path_isfile (split_pickle ''out'' 5) (fs (log ev cached_world))" for ev
    by (simp add: split_pickle_out_5 os_path_isfile_def cached_world_def log_def)
  have "(5::int) \<noteq> 10"
    by simp
  then show ?thesis
    using split_pickle_keyed_by_repetition
      [where out = "''out''" and ?r1.0 = 5 and ?r2.0 = 10 and E = example_env
         and tsv = "''features.tsv''" and w = cached_world and rep = 5 and strat = "''hold_out''"
         and cwb = True and thr = 8 and ?seed1.0 = "Some 0" and vb = False and ?seed2.0 = "Some 1"]
      example_input c
    by blast
qed

subsection \<open>The per-scale rows in the order of the participants\<close>

lemma same_ids:
  assumes "distinct F" "length ids = length F" "set F \<subseteq> set ids"
  shows "distinct ids \<and> set ids = set F"
proof -
  have "card (set ids) \<le> length ids"
    by (rule card_length)
  moreover have "card (set F) = length F"
    using assms(1) by (rule distinct_card)
  moreover have "card (set F) \<le> card (set ids)"
    using assms(3) by (simp add: card_mono)
  ultimately have c: "card (set ids) = length ids" and e: "card (set F) = card (set ids)"
    using assms(2) by simp_all
  have "set F = set ids"
    using assms(3) e by (simp add: card_subset_eq)
  then show ?thesis
    using c by (simp add: card_distinct)
qed

lemma lookup_rows:
  assumes "distinct F" "length F = length R"
  shows "map (\<lambda>t. t # (case map_of (zip F R) t of Some r \<Rightarrow> r | None \<Rightarrow> d)) F
       = map (\<lambda>(l, r). l # r) (zip F R)"
proof (rule nth_equalityI)
  show "length (map (\<lambda>t. t # (case map_of (zip F R) t of Some r \<Rightarrow> r | None \<Rightarrow> d)) F)
      = length (map (\<lambda>(l, r). l # r) (zip F R))"
    using assms(2) by simp
next
  fix i
  assume "i < length (map (\<lambda>t. t # (case map_of (zip F R) t of Some r \<Rightarrow> r | None \<Rightarrow> d)) F)"
  then have i: "i < length F" by simp
  then have "map_of (zip F R) (F ! i) = Some (R ! i)"
    using assms by (simp add: map_of_zip_nth)
  then show "map (\<lambda>t. t # (case map_of (zip F R) t of Some r \<Rightarrow> r | None \<Rightarrow> d)) F ! i
      = map (\<lambda>(l, r). l # r) (zip F R) ! i"
    using i assms(2) by simp
qed

lemma reorder_mset:
  assumes "distinct F" "length F = length R" "length ids = length F" "set F \<subseteq> set ids"
  shows "mset (map (\<lambda>t. t # (case map_of (zip F R) t of Some r \<Rightarrow> r | None \<Rightarrow> d)) ids)
       = mset (map (\<lambda>(l, r). l # r) (zip F R))"
proof -
  let ?h = "\<lambda>t. t # (case map_of (zip F R) t of Some r \<Rightarrow> r | None \<Rightarrow> d)"
  have "distinct ids \<and> set ids = set F"
    using assms(1,3,4) by (rule same_ids)
  then have "mset ids = mset F"
    using assms(1) set_eq_iff_mset_eq_distinct [of ids F] by blast
  then have "mset (map ?h ids) = mset (map ?h F)"
    by (metis mset_map)
  then show ?thesis
    using lookup_rows [OF assms(1,2)] by simp
qed

lemma zip_id_rows:
  "map (\<lambda>(l, r). l # r) (zip (map (\<lambda>r. r ! k) rs) (map (drop_at k) rs)) = map (id_first k) rs"
  by (induction rs) (simp_all add: id_first_def)

lemma first_cells:
  "length ls = length rs \<Longrightarrow> map (\<lambda>r. r ! 0) (map (\<lambda>(l, r). l # r) (zip ls rs)) = ls"
  by (induction ls rs rule: list_induct2) simp_all


lemma columns_loc_isin [simp]: "columns (loc_isin name vals df) = columns df"
  by (simp add: loc_isin_def)

lemma isin_cells:
  "set (map (\<lambda>r. r ! index_of name (columns df)) (rows (loc_isin name vals df))) \<subseteq> set vals"
  by (auto simp: loc_isin_def)


lemma reindexed_rows:
  assumes r: "ebind (reindex ids fr) reset_index = Inr A"
    and l1: "length (ix_labels fr) = length (if_rows fr)"
    and l2: "length ids = length (ix_labels fr)"
    and sub: "set (ix_labels fr) \<subseteq> set ids"
  shows "map (\<lambda>r. r ! 0) (rows A) = ids \<and> columns A = ix_name fr # if_columns fr
       \<and> mset (rows A) = mset (map (\<lambda>(l, r). l # r) (zip (ix_labels fr) (if_rows fr)))"
proof (cases "ix_labels fr = ids")
  case True
  then have "reset_index fr = Inr A"
    using r by (simp add: ebind_def reindex_def)
  then have A: "columns A = ix_name fr # if_columns fr"
      "rows A = map (\<lambda>(l, r). l # r) (zip (ix_labels fr) (if_rows fr))"
    by (auto simp: reset_index_def split: if_splits)
  show ?thesis
    using A True first_cells [OF l1] by simp
next
  case False
  let ?g = "\<lambda>t. case map_of (zip (ix_labels fr) (if_rows fr)) t of Some r \<Rightarrow> r
                 | None \<Rightarrow> replicate (length (if_columns fr)) NaN"
  let ?fr = "fr\<lparr>ix_labels := ids, if_rows := map ?g ids\<rparr>"
  have dF: "distinct (ix_labels fr)"
    using r False by (auto simp: ebind_def reindex_def split: if_splits)
  then have "reset_index ?fr = Inr A"
    using r False by (simp add: ebind_def reindex_def)
  then have A: "columns A = ix_name fr # if_columns fr"
      "rows A = map (\<lambda>(l, r). l # r) (zip ids (map ?g ids))"
    by (auto simp: reset_index_def split: if_splits)
  have z: "map (\<lambda>(l, r). l # r) (zip ids (map ?g ids)) = map (\<lambda>t. t # ?g t) ids"
    by (induction ids) simp_all
  have "mset (map (\<lambda>t. t # ?g t) ids)
      = mset (map (\<lambda>(l, r). l # r) (zip (ix_labels fr) (if_rows fr)))"
    by (rule reorder_mset [OF dF l1 l2 sub])
  then have m: "mset (rows A) = mset (map (\<lambda>(l, r). l # r) (zip (ix_labels fr) (if_rows fr)))"
    using A(2) z by simp
  have "map (\<lambda>r. r ! 0) (rows A) = ids"
    using A(2) first_cells [of ids "map ?g ids"] by simp
  then show ?thesis
    using A(1) m by simp
qed

lemma aligned_opnmf_rows:
  assumes a: "aligned_opnmf df_participant df_opnmf = Inr A"
  shows "\<exists>ids. col ''participant_id'' df_participant = Inr ids
          \<and> col ''participant_id'' A = Inr ids
          \<and> columns A = ''participant_id''
                # drop_at (index_of ''participant_id'' (columns df_opnmf)) (columns df_opnmf)
          \<and> mset (rows A) = mset (map (id_first (index_of ''participant_id'' (columns df_opnmf)))
                                  (rows (loc_isin ''participant_id'' ids df_opnmf)))"
proof -
  let ?k = "index_of ''participant_id'' (columns df_opnmf)"
  let ?ids = "map (\<lambda>r. r ! index_of ''participant_id'' (columns df_participant)) (rows df_participant)"
  let ?df1 = "loc_isin ''participant_id'' ?ids df_opnmf"
  let ?F = "map (\<lambda>r. r ! ?k) (rows ?df1)"
  let ?R = "map (drop_at ?k) (rows ?df1)"
  let ?df2 = "\<lparr>ix_name = ''participant_id'', ix_labels = ?F,
               if_columns = drop_at ?k (columns df_opnmf), if_rows = ?R\<rparr>"
  have co: "''participant_id'' \<in> set (columns df_opnmf)"
    using a by (auto simp: aligned_opnmf_def ebind_def col_def split: if_splits)
  have cp: "col ''participant_id'' df_participant = Inr ?ids"
    using a co by (auto simp: aligned_opnmf_def ebind_def col_def split: if_splits)
  have len: "length (rows df_participant) = length (rows ?df1)"
    using a co cp by (auto simp: aligned_opnmf_def ebind_def col_def Let_def split: if_splits)
  have si: "set_index ''participant_id'' ?df1 = Inr ?df2"
    using co by (simp add: set_index_def)
  have rest: "ebind (reindex ?ids ?df2) reset_index = Inr A"
    using a co cp len si by (simp add: aligned_opnmf_def ebind_def col_def Let_def)
  have sub: "set ?F \<subseteq> set ?ids"
    by (rule isin_cells)
  have "map (\<lambda>r. r ! 0) (rows A) = ?ids \<and> columns A = ix_name ?df2 # if_columns ?df2
       \<and> mset (rows A) = mset (map (\<lambda>(l, r). l # r) (zip (ix_labels ?df2) (if_rows ?df2)))"
    by (rule reindexed_rows [OF rest]) (use len sub in simp_all)
  then have c: "map (\<lambda>r. r ! 0) (rows A) = ?ids"
    and cs: "columns A = ''participant_id'' # drop_at ?k (columns df_opnmf)"
    and m: "mset (rows A) = mset (map (\<lambda>(l, r). l # r) (zip ?F ?R))"
    by simp_all
  have "col ''participant_id'' A = Inr ?ids"
    using c cs by (simp add: col_def)
  moreover have "mset (rows A) = mset (map (id_first ?k) (rows ?df1))"
    using m zip_id_rows [of ?k "rows ?df1"] by simp
  ultimately show ?thesis
    using cp cs by simp
qed

lemma index_dropped: "distinct xs \<Longrightarrow> x \<in> set xs \<Longrightarrow> x \<notin> set (drop_at (index_of x xs) xs)"
proof (induction xs)
  case Nil
  then show ?case by simp
next
  case (Cons y ys)
  show ?case
  proof (cases "x = y")
    case True
    then show ?thesis
      using Cons.prems by (simp add: drop_at_def)
  next
    case False
    then have "x \<notin> set (drop_at (index_of x ys) ys)"
      using Cons by simp
    then show ?thesis
      using False by (simp add: drop_at_def)
  qed
qed

lemma aligned_opnmf_returns:
  assumes wf: "wf_table df_opnmf" and al: "alignable df_participant df_opnmf"
  shows "\<exists>A. aligned_opnmf df_participant df_opnmf = Inr A"
proof -
  let ?k = "index_of ''participant_id'' (columns df_opnmf)"
  let ?ids = "map (\<lambda>r. r ! index_of ''participant_id'' (columns df_participant)) (rows df_participant)"
  let ?df1 = "loc_isin ''participant_id'' ?ids df_opnmf"
  let ?F = "map (\<lambda>r. r ! ?k) (rows ?df1)"
  let ?df2 = "\<lparr>ix_name = ''participant_id'', ix_labels = ?F,
               if_columns = drop_at ?k (columns df_opnmf),
               if_rows = map (drop_at ?k) (rows ?df1)\<rparr>"
  have co: "''participant_id'' \<in> set (columns df_opnmf)"
    and cp: "''participant_id'' \<in> set (columns df_participant)"
    and len: "length (rows df_participant) = length (rows ?df1)"
    and lab: "?F = ?ids \<or> distinct ?F"
    using al by (simp_all add: alignable_def Let_def)
  have fresh: "''participant_id'' \<notin> set (drop_at ?k (columns df_opnmf))"
    using wf co by (simp add: wf_table_def index_dropped)
  have si: "set_index ''participant_id'' ?df1 = Inr ?df2"
    using co by (simp add: set_index_def)
  have "\<exists>A. ebind (reindex ?ids ?df2) reset_index = Inr A"
    using lab fresh by (auto simp: ebind_def reindex_def reset_index_def)
  then show ?thesis
    using co cp len si by (simp add: aligned_opnmf_def ebind_def col_def Let_def)
qed



subsection \<open>The diagnosis column\<close>

lemma index_of_less: "x \<in> set xs \<Longrightarrow> index_of x xs < length xs"
  by (induction xs) auto

lemma length_id_first: "k < length r \<Longrightarrow> length (id_first k r) = length r"
  by (simp add: id_first_def drop_at_def)

lemma aligned_opnmf_shape:
  assumes wf: "wf_table df_opnmf" and a: "aligned_opnmf df_participant df_opnmf = Inr A"
  shows "columns A = ''participant_id''
           # drop_at (index_of ''participant_id'' (columns df_opnmf)) (columns df_opnmf)"
    and "list_all (\<lambda>r. length r = length (columns df_opnmf)) (rows A)"
    and "length (rows A) = length (rows df_participant)"
    and "col ''participant_id'' A = col ''participant_id'' df_participant"
proof -
  let ?k = "index_of ''participant_id'' (columns df_opnmf)"
  obtain ids where cp: "col ''participant_id'' df_participant = Inr ids"
    and ca: "col ''participant_id'' A = Inr ids"
    and cs: "columns A = ''participant_id'' # drop_at ?k (columns df_opnmf)"
    and m: "mset (rows A) = mset (map (id_first ?k) (rows (loc_isin ''participant_id'' ids df_opnmf)))"
    using aligned_opnmf_rows [OF a] by blast
  show "columns A = ''participant_id'' # drop_at ?k (columns df_opnmf)"
    by (rule cs)
  show "col ''participant_id'' A = col ''participant_id'' df_participant"
    using cp ca by simp
  have "length ids = length (rows A)"
    using ca by (auto simp: col_def split: if_splits)
  moreover have "length ids = length (rows df_participant)"
    using cp by (auto simp: col_def split: if_splits)
  ultimately show "length (rows A) = length (rows df_participant)"
    by simp
  have co: "''participant_id'' \<in> set (columns df_opnmf)"
    using a by (auto simp: aligned_opnmf_def ebind_def col_def split: if_splits)
  have k: "?k < length (columns df_opnmf)"
    using co by (rule index_of_less)
  have "length r = length (columns df_opnmf)" if "r \<in> set (rows A)" for r
  proof -
    from that have "r \<in># mset (rows A)" by simp
    then have "r \<in> set (map (id_first ?k) (rows (loc_isin ''participant_id'' ids df_opnmf)))"
      unfolding m by simp
    then obtain r0 where r0: "r0 \<in> set (rows df_opnmf)" "r = id_first ?k r0"
      by (auto simp: loc_isin_def)
    then have "length r0 = length (columns df_opnmf)"
      using wf by (simp add: wf_table_def list_all_iff)
    then show ?thesis
      using r0(2) k by (simp add: length_id_first)
  qed
  then show "list_all (\<lambda>r. length r = length (columns df_opnmf)) (rows A)"
    by (simp add: list_all_iff)
qed

lemma updated_cells:
  "length rs = length vs \<Longrightarrow> list_all (\<lambda>r. k < length r) rs \<Longrightarrow>
   map (\<lambda>r. r ! k) (map (\<lambda>(r, v). r[k := v]) (zip rs vs)) = vs"
  by (induction rs vs rule: list_induct2) simp_all

lemma other_cells:
  "length rs = length vs \<Longrightarrow> j \<noteq> k \<Longrightarrow>
   map (\<lambda>r. r ! j) (map (\<lambda>(r, v). r[k := v]) (zip rs vs)) = map (\<lambda>r. r ! j) rs"
  by (induction rs vs rule: list_induct2) simp_all

lemma updated_lengths:
  "length rs = length vs \<Longrightarrow> list_all (\<lambda>r. length r = n) rs \<Longrightarrow>
   list_all (\<lambda>r. length r = n) (map (\<lambda>(r, v). r[k := v]) (zip rs vs))"
  by (induction rs vs rule: list_induct2) simp_all

lemma component_table_layout:
  assumes wf: "wf_table df_opnmf"
    and cols: "columns df_opnmf = ''participant_id'' # ''session_id'' # ''path'' # features"
    and nd: "''diagnosis'' \<notin> set features"
    and t: "opnmf_component_table df_participant df_opnmf = Inr T"
  shows "columns T = ''participant_id'' # ''session_id'' # ''diagnosis'' # features
       \<and> col ''diagnosis'' T = col ''diagnosis'' df_participant
       \<and> col ''participant_id'' T = col ''participant_id'' df_participant
       \<and> wf_table T"
proof -
  obtain A where a: "aligned_opnmf df_participant df_opnmf = Inr A"
    and wd: "with_diagnosis df_participant A = Inr T"
    using t by (auto simp: opnmf_component_table_def ebind_def split: sum.splits)
  have k: "index_of ''participant_id'' (columns df_opnmf) = 0"
    using cols by simp
  have cA: "columns A = ''participant_id'' # ''session_id'' # ''path'' # features"
    using aligned_opnmf_shape(1) [OF wf a] cols by (simp add: k drop_at_def)
  have lens: "list_all (\<lambda>r. length r = length (columns A)) (rows A)"
    using aligned_opnmf_shape(2) [OF wf a] cols cA by simp
  have n: "length (rows A) = length (rows df_participant)"
    by (rule aligned_opnmf_shape(3) [OF wf a])
  have ids: "col ''participant_id'' A = col ''participant_id'' df_participant"
    by (rule aligned_opnmf_shape(4) [OF wf a])
  let ?diag = "map (\<lambda>r. r ! index_of ''diagnosis'' (columns df_participant)) (rows df_participant)"
  have cd: "col ''diagnosis'' df_participant = Inr ?diag"
    using wd by (auto simp: with_diagnosis_def ebind_def col_def split: if_splits)
  have ld: "length (rows A) = length ?diag"
    using n by simp
  let ?j = "index_of ''path'' (columns A)"
  let ?rows = "map (\<lambda>(r, v). r[?j := v]) (zip (rows A) ?diag)"
  have pin: "''path'' \<in> set (columns A)"
    using cA by simp
  have sc: "set_column ''path'' ?diag A = Inr (A\<lparr>rows := ?rows\<rparr>)"
    using ld pin by (simp add: set_column_def)
  have np: "''path'' \<notin> set features"
    using wf cols by (simp add: wf_table_def)
  have same: "map (\<lambda>c. if c = ''path'' then ''diagnosis'' else c) features = features"
    using np by (induction features) auto
  have colsT: "columns T = ''participant_id'' # ''session_id'' # ''diagnosis'' # features"
    using wd cd sc cA same by (auto simp: with_diagnosis_def ebind_def rename_column_def)
  have rowsT: "rows T = ?rows"
    using wd cd sc by (auto simp: with_diagnosis_def ebind_def rename_column_def)
  have jd: "index_of ''diagnosis'' (columns T) = ?j"
    using colsT cA by simp
  have j0: "index_of ''participant_id'' (columns T) \<noteq> ?j"
    using colsT cA by simp
  have jp: "index_of ''participant_id'' (columns T) = index_of ''participant_id'' (columns A)"
    using colsT cA by simp
  have three: "list_all (\<lambda>r. ?j < length r) (rows A)"
    using lens cA by (simp add: list_all_iff)
  have d: "map (\<lambda>r. r ! ?j) ?rows = ?diag"
    by (rule updated_cells [OF ld three])
  have p: "map (\<lambda>r. r ! index_of ''participant_id'' (columns T)) ?rows
      = map (\<lambda>r. r ! index_of ''participant_id'' (columns T)) (rows A)"
    by (rule other_cells [OF ld j0])
  have cdT: "col ''diagnosis'' T = col ''diagnosis'' df_participant"
    using colsT rowsT d cd jd by (simp add: col_def)
  have "col ''participant_id'' T = col ''participant_id'' A"
    using colsT rowsT p jp cA by (simp add: col_def)
  then have cpT: "col ''participant_id'' T = col ''participant_id'' df_participant"
    using ids by simp
  have dist: "distinct (''participant_id'' # ''session_id'' # ''diagnosis'' # features)"
    using wf cols nd by (simp add: wf_table_def)
  have "list_all (\<lambda>r. length r = length (columns A)) ?rows"
    by (rule updated_lengths [OF ld lens])
  then have wfT: "wf_table T"
    using colsT rowsT dist cA by (simp add: wf_table_def)
  show ?thesis
    using colsT cdT cpT wfT by simp
qed

lemma opnmf_component_table_returns:
  assumes wf: "wf_table df_opnmf" and al: "alignable df_participant df_opnmf"
    and dg: "''diagnosis'' \<in> set (columns df_participant)"
  shows "\<exists>T. opnmf_component_table df_participant df_opnmf = Inr T"
proof -
  obtain A where a: "aligned_opnmf df_participant df_opnmf = Inr A"
    using aligned_opnmf_returns [OF wf al] by blast
  have n: "length (rows A) = length (rows df_participant)"
    by (rule aligned_opnmf_shape(3) [OF wf a])
  have "\<exists>T. with_diagnosis df_participant A = Inr T"
    using dg n by (simp add: with_diagnosis_def ebind_def col_def set_column_def)
  then show ?thesis
    using a by (simp add: opnmf_component_table_def ebind_def)
qed

subsection \<open>The orchestrator\<close>

lemma ensure_dir_eq: "ensure_dir p v = Return () (ensured p v)"
  by (simp add: ensure_dir_def bind_def path_exists_def os_path_exists_def makedirs_def
      ensured_def present_def)

lemma files_ensured [simp]: "files (fs (ensured p v)) = files (fs v)"
  by (simp add: ensured_def log_def os_makedirs_def)

lemma present_ensured: "present p (fs (ensured p v))"
  by (simp add: ensured_def present_def log_def os_makedirs_def os_path_isfile_def)

lemma present_ensured_mono: "present q (fs v) \<Longrightarrow> present q (fs (ensured p v))"
  by (auto simp: ensured_def present_def log_def os_makedirs_def os_path_isfile_def)

lemma trace_ensured:
  "trace (ensured p v) = trace v @ (if present p (fs v) then [] else [Ev_makedirs p])"
  by (simp add: ensured_def log_def)

lemma exists_three: "path_exists [a, b, c] v = Raise (TypeError ''exists() takes 1 positional argument'') v"
  by (simp add: path_exists_def os_path_exists_def)

lemma read_csv_table:
  "map_of (files (fs v)) p = Some (Tsv t) \<Longrightarrow> wf_table t \<Longrightarrow>
   read_csv p v = Return t (log (Ev_read_csv p) v)"
  by (simp add: read_csv_def)

lemma trace_read_csv: "trace (world_of (read_csv p v)) = trace v @ [Ev_read_csv p]"
  by (simp add: read_csv_def log_def split: option.splits content.splits)

text \<open>The loop body never returns: whatever comes before, the summary check raises.\<close>

lemma component_body_raises:
  "\<exists>e w'. component_body E P odir out rep strat cwb thr vb i w = Raise e w'"
  by (auto simp: component_body_def bind_def exists_three ensure_dir_eq to_csv_def lift_def
      split: outcome.splits sum.splits)

lemma component_body_written:
  assumes "map_of (files (fs w)) (opnmf_tsv odir i) = Some (Tsv Sg)" "wf_table Sg"
    and "opnmf_component_table P Sg = Inr T"
  shows "component_body E P odir out rep strat cwb thr vb i w
       = Raise (TypeError ''exists() takes 1 positional argument'')
           (log (Ev_to_csv (opnmf_component_tsv out i) T)
              ((log (Ev_read_csv (opnmf_tsv odir i)) (ensured (component_output_dir out i) w))
                 \<lparr>fs := write_file (opnmf_component_tsv out i) (Tsv T)
                          (fs (ensured (component_output_dir out i) w))\<rparr>))"
  using assms
  by (simp add: component_body_def bind_def ensure_dir_eq read_csv_table lift_def to_csv_def
      exists_three log_def)

lemma prelude_eq:
  assumes "map_of (files (fs w)) ptsv = Some (Tsv P)" "wf_table P"
  shows "prelude ptsv out w
       = Return P (ensured (os_path_join out [''ensemble''])
                    (ensured (os_path_join out [''intermediate'']) (log (Ev_read_csv ptsv) w)))"
  using assms by (simp add: prelude_def bind_def read_csv_table ensure_dir_eq)

lemma multiscale_raises:
  "\<exists>e w'. classification_multiscale_opnmf E ptsv odir out (i # rest) rep strat vm cwb thr vb w
            = Raise e w'"
proof (cases "strat = ''hold_out''")
  case False
  then show ?thesis
    by (simp add: classification_multiscale_opnmf_def raise_def)
next
  case True
  show ?thesis
  proof (cases "prelude ptsv out w")
    case (Raise e w2)
    then show ?thesis
      using True by (simp add: classification_multiscale_opnmf_def bind_def)
  next
    case (Return P w2)
    obtain e w' where "component_body E P odir out rep strat cwb thr vb i w2 = Raise e w'"
      using component_body_raises by blast
    then show ?thesis
      using True Return by (simp add: classification_multiscale_opnmf_def bind_def)
  qed
qed

lemma exists_one: "os_path_exists [p] f = Inr (present p f)"
  by (simp add: os_path_exists_def present_def)

lemma not_makedirs_ensured:
  "filter not_makedirs (trace (ensured p v)) = filter not_makedirs (trace v)"
  by (simp add: trace_ensured)

lemma first_scale_written:
  "(\<exists>e w'. classification_multiscale_opnmf E ptsv odir out (i # rest) rep strat vm cwb thr vb w
              = Raise e w')
   \<and> (\<forall>P Sg T. map_of (files (fs w)) ptsv = Some (Tsv P) \<longrightarrow> wf_table P
        \<longrightarrow> map_of (files (fs w)) (opnmf_tsv odir i) = Some (Tsv Sg) \<longrightarrow> wf_table Sg
        \<longrightarrow> opnmf_component_table P Sg = Inr T
        \<longrightarrow> (\<exists>w'. classification_multiscale_opnmf E ptsv odir out (i # rest) rep ''hold_out'' vm cwb
                      thr vb w
                    = Raise (TypeError ''exists() takes 1 positional argument'') w'
                \<and> os_path_exists [os_path_join out [''intermediate'']] (fs w') = Inr True
                \<and> os_path_exists [os_path_join out [''ensemble'']] (fs w') = Inr True
                \<and> os_path_exists [component_output_dir out i] (fs w') = Inr True
                \<and> map_of (files (fs w')) (opnmf_component_tsv out i) = Some (Tsv T)
                \<and> filter not_makedirs (trace w')
                    = filter not_makedirs (trace w)
                      @ [Ev_read_csv ptsv, Ev_read_csv (opnmf_tsv odir i),
                         Ev_to_csv (opnmf_component_tsv out i) T]))"
proof (intro conjI allI impI)
  show "\<exists>e w'. classification_multiscale_opnmf E ptsv odir out (i # rest) rep strat vm cwb thr vb w
              = Raise e w'"
    by (rule multiscale_raises)
next
  fix P Sg T
  assume p: "map_of (files (fs w)) ptsv = Some (Tsv P)" "wf_table P"
    and s: "map_of (files (fs w)) (opnmf_tsv odir i) = Some (Tsv Sg)" "wf_table Sg"
    and t: "opnmf_component_table P Sg = Inr T"
  let ?w2 = "ensured (os_path_join out [''ensemble''])
               (ensured (os_path_join out [''intermediate'']) (log (Ev_read_csv ptsv) w))"
  let ?w3 = "ensured (component_output_dir out i) ?w2"
  let ?w' = "log (Ev_to_csv (opnmf_component_tsv out i) T)
              ((log (Ev_read_csv (opnmf_tsv odir i)) ?w3)
                 \<lparr>fs := write_file (opnmf_component_tsv out i) (Tsv T) (fs ?w3)\<rparr>)"
  have s2: "map_of (files (fs ?w2)) (opnmf_tsv odir i) = Some (Tsv Sg)"
    using s(1) by (simp add: log_def)
  have body: "component_body E P odir out rep ''hold_out'' cwb thr vb i ?w2
      = Raise (TypeError ''exists() takes 1 positional argument'') ?w'"
    by (rule component_body_written [OF s2 s(2) t])
  have run: "classification_multiscale_opnmf E ptsv odir out (i # rest) rep ''hold_out'' vm cwb thr vb w
      = Raise (TypeError ''exists() takes 1 positional argument'') ?w'"
    using prelude_eq [OF p, of out] body
    by (simp add: classification_multiscale_opnmf_def bind_def)
  have keep: "present q (fs ?w3) \<Longrightarrow> present q (fs ?w')" for q
    by (simp add: present_def log_def write_file_def os_path_isfile_def)
  have d1: "present (os_path_join out [''intermediate'']) (fs ?w')"
    by (intro keep present_ensured_mono present_ensured)
  have d2: "present (os_path_join out [''ensemble'']) (fs ?w')"
    by (intro keep present_ensured_mono present_ensured)
  have d3: "present (component_output_dir out i) (fs ?w')"
    by (intro keep present_ensured)
  have f: "map_of (files (fs ?w')) (opnmf_component_tsv out i) = Some (Tsv T)"
    by (simp add: log_def write_file_def)
  have tr: "filter not_makedirs (trace ?w')
      = filter not_makedirs (trace w)
        @ [Ev_read_csv ptsv, Ev_read_csv (opnmf_tsv odir i), Ev_to_csv (opnmf_component_tsv out i) T]"
    by (simp add: log_def trace_ensured)
  show "\<exists>w'. classification_multiscale_opnmf E ptsv odir out (i # rest) rep ''hold_out'' vm cwb
                      thr vb w
                    = Raise (TypeError ''exists() takes 1 positional argument'') w'
                \<and> os_path_exists [os_path_join out [''intermediate'']] (fs w') = Inr True
                \<and> os_path_exists [os_path_join out [''ensemble'']] (fs w') = Inr True
                \<and> os_path_exists [component_output_dir out i] (fs w') = Inr True
                \<and> map_of (files (fs w')) (opnmf_component_tsv out i) = Some (Tsv T)
                \<and> filter not_makedirs (trace w')
                    = filter not_makedirs (trace w)
                      @ [Ev_read_csv ptsv, Ev_read_csv (opnmf_tsv odir i),
                         Ev_to_csv (opnmf_component_tsv out i) T]"
    using run d1 d2 d3 f tr by (intro exI [of _ ?w']) (simp only: exists_one simp_thms)
qed

lemma example_participants:
  "map_of (files (fs (opnmf_world sig))) ''participants.tsv'' = Some (Tsv participants)"
  by (simp add: opnmf_world_def)

lemma example_paths:
  "opnmf_tsv ''opnmf'' 2 = ''opnmf/NMF/component_2/atlas_components_signal.tsv''"
  "opnmf_component_tsv ''out'' 2 = ''out/intermediate/opnmf_component_2.tsv''"
  by code_simp+

lemma example_signal:
  "map_of (files (fs (opnmf_world sig))) (opnmf_tsv ''opnmf'' 2) = Some (Tsv sig)"
  unfolding example_paths by (simp add: opnmf_world_def)

lemma example_tables:
  "wf_table participants" "wf_table signal"
  "opnmf_component_table participants signal = Inr component_table"
  by code_simp+

text \<open>
  C2, as stated: with \<^verbatim>\<open>hold_out\<close>, a non-empty list and readable tables, the call raises
  a \<^verbatim>\<open>TypeError\<close> after the first intermediate table is written. Not always: both tables
  are readable here, but the per-scale table lacks a participant, and the call raises the
  dimension error before anything is written.
\<close>

theorem first_scale_TypeError_counterexample:
  "raised (classification_multiscale_opnmf example_env ''participants.tsv'' ''opnmf'' ''out'' [2] 5
       ''hold_out'' ''hard_voting'' True 8 False (opnmf_world signal_short))
     = Some (Exception ''The dimension of the participant_tsv and opNMF are not consistent!'')
   \<and> map_of (files (fs (world_of
         (classification_multiscale_opnmf example_env ''participants.tsv'' ''opnmf'' ''out'' [2] 5
            ''hold_out'' ''hard_voting'' True 8 False (opnmf_world signal_short)))))
       ''out/intermediate/opnmf_component_2.tsv'' = None"
  by code_simp

text \<open>
  C2, amended. With a non-empty \<^verbatim>\<open>components_list\<close> the orchestrator never returns. With
  \<^verbatim>\<open>cv_strategy='hold_out'\<close>, a readable participant table that has a \<^verbatim>\<open>diagnosis\<close> column,
  and a readable first per-scale table that lines 269--277 accept, the intermediate table
  of the first scale is built and the call stops at that scale's summary check with a
  \<^verbatim>\<open>TypeError\<close>: the folders are there, the table is written, and the trace holds the two
  reads and the write and, folder creations apart, nothing else; no classification and no
  vote has run.
\<close>

theorem summary_check_stops_first_scale:
  "(\<exists>e w'. classification_multiscale_opnmf E ptsv odir out (i # rest) rep strat vm cwb thr vb w
              = Raise e w')
   \<and> (\<forall>P Sg. map_of (files (fs w)) ptsv = Some (Tsv P) \<longrightarrow> wf_table P
        \<longrightarrow> ''diagnosis'' \<in> set (columns P)
        \<longrightarrow> map_of (files (fs w)) (opnmf_tsv odir i) = Some (Tsv Sg) \<longrightarrow> wf_table Sg
        \<longrightarrow> alignable P Sg
        \<longrightarrow> (\<exists>T w'. opnmf_component_table P Sg = Inr T
                \<and> classification_multiscale_opnmf E ptsv odir out (i # rest) rep ''hold_out'' vm cwb
                      thr vb w
                    = Raise (TypeError ''exists() takes 1 positional argument'') w'
                \<and> os_path_exists [os_path_join out [''intermediate'']] (fs w') = Inr True
                \<and> os_path_exists [os_path_join out [''ensemble'']] (fs w') = Inr True
                \<and> os_path_exists [component_output_dir out i] (fs w') = Inr True
                \<and> map_of (files (fs w')) (opnmf_component_tsv out i) = Some (Tsv T)
                \<and> filter not_makedirs (trace w')
                    = filter not_makedirs (trace w)
                      @ [Ev_read_csv ptsv, Ev_read_csv (opnmf_tsv odir i),
                         Ev_to_csv (opnmf_component_tsv out i) T]))"
proof (intro conjI allI impI)
  show "\<exists>e w'. classification_multiscale_opnmf E ptsv odir out (i # rest) rep strat vm cwb thr vb w
              = Raise e w'"
    by (rule multiscale_raises)
next
  fix P Sg
  assume p: "map_of (files (fs w)) ptsv = Some (Tsv P)" "wf_table P"
    and dg: "''diagnosis'' \<in> set (columns P)"
    and s: "map_of (files (fs w)) (opnmf_tsv odir i) = Some (Tsv Sg)" "wf_table Sg"
    and al: "alignable P Sg"
  obtain T where t: "opnmf_component_table P Sg = Inr T"
    using opnmf_component_table_returns [OF s(2) al dg] by blast
  from first_scale_written p s t
  have "\<exists>w'. classification_multiscale_opnmf E ptsv odir out (i # rest) rep ''hold_out'' vm cwb
                      thr vb w
                    = Raise (TypeError ''exists() takes 1 positional argument'') w'
                \<and> os_path_exists [os_path_join out [''intermediate'']] (fs w') = Inr True
                \<and> os_path_exists [os_path_join out [''ensemble'']] (fs w') = Inr True
                \<and> os_path_exists [component_output_dir out i] (fs w') = Inr True
                \<and> map_of (files (fs w')) (opnmf_component_tsv out i) = Some (Tsv T)
                \<and> filter not_makedirs (trace w')
                    = filter not_makedirs (trace w)
                      @ [Ev_read_csv ptsv, Ev_read_csv (opnmf_tsv odir i),
                         Ev_to_csv (opnmf_component_tsv out i) T]"
    by blast
  then show "\<exists>T w'. opnmf_component_table P Sg = Inr T
                \<and> classification_multiscale_opnmf E ptsv odir out (i # rest) rep ''hold_out'' vm cwb
                      thr vb w
                    = Raise (TypeError ''exists() takes 1 positional argument'') w'
                \<and> os_path_exists [os_path_join out [''intermediate'']] (fs w') = Inr True
                \<and> os_path_exists [os_path_join out [''ensemble'']] (fs w') = Inr True
                \<and> os_path_exists [component_output_dir out i] (fs w') = Inr True
                \<and> map_of (files (fs w')) (opnmf_component_tsv out i) = Some (Tsv T)
                \<and> filter not_makedirs (trace w')
                    = filter not_makedirs (trace w)
                      @ [Ev_read_csv ptsv, Ev_read_csv (opnmf_tsv odir i),
                         Ev_to_csv (opnmf_component_tsv out i) T]"
    using t by blast
qed

theorem summary_check_stops_first_scale_witness:
  "opnmf_component_table participants signal = Inr component_table
   \<and> raised (classification_multiscale_opnmf example_env ''participants.tsv'' ''opnmf'' ''out'' [2, 4] 5
       ''hold_out'' ''hard_voting'' True 8 False (opnmf_world signal))
     = Some (TypeError ''exists() takes 1 positional argument'')
   \<and> map_of (files (fs (world_of
         (classification_multiscale_opnmf example_env ''participants.tsv'' ''opnmf'' ''out'' [2, 4] 5
            ''hold_out'' ''hard_voting'' True 8 False (opnmf_world signal)))))
       ''out/intermediate/opnmf_component_2.tsv'' = Some (Tsv component_table)
   \<and> filter not_makedirs (trace (world_of
         (classification_multiscale_opnmf example_env ''participants.tsv'' ''opnmf'' ''out'' [2, 4] 5
            ''hold_out'' ''hard_voting'' True 8 False (opnmf_world signal))))
       = [Ev_read_csv ''participants.tsv'',
          Ev_read_csv ''opnmf/NMF/component_2/atlas_components_signal.tsv'',
          Ev_to_csv ''out/intermediate/opnmf_component_2.tsv'' component_table]"
proof -
  have t: "trace (opnmf_world signal) = []"
    by (simp add: opnmf_world_def)
  have dg: "''diagnosis'' \<in> set (columns participants)"
    by (simp add: participants_def)
  have al: "alignable participants signal"
    by code_simp
  obtain T w' where
    "opnmf_component_table participants signal = Inr T"
    "classification_multiscale_opnmf example_env ''participants.tsv'' ''opnmf'' ''out'' [2, 4] 5
        ''hold_out'' ''hard_voting'' True 8 False (opnmf_world signal)
      = Raise (TypeError ''exists() takes 1 positional argument'') w'"
    "map_of (files (fs w')) (opnmf_component_tsv ''out'' 2) = Some (Tsv T)"
    "filter not_makedirs (trace w')
       = filter not_makedirs (trace (opnmf_world signal))
         @ [Ev_read_csv ''participants.tsv'', Ev_read_csv (opnmf_tsv ''opnmf'' 2),
            Ev_to_csv (opnmf_component_tsv ''out'' 2) T]"
    using summary_check_stops_first_scale
      [where E = example_env and ptsv = "''participants.tsv''" and odir = "''opnmf''"
         and out = "''out''" and i = 2 and rest = "[4]" and rep = 5 and vm = "''hard_voting''"
         and cwb = True and thr = 8 and vb = False and w = "opnmf_world signal"]
      example_participants [of signal] example_signal [of signal] example_tables(1,2) dg al
    by blast
  then show ?thesis
    using example_tables(3) by (simp add: example_paths t)
qed

lemma voting_ensured: "filter is_voting (trace (ensured p v)) = filter is_voting (trace v)"
  by (simp add: trace_ensured)

lemma prelude_voting:
  "filter is_voting (trace (world_of (prelude ptsv out w))) = filter is_voting (trace w)"
proof (cases "read_csv ptsv w")
  case (Raise e w1)
  then show ?thesis
    using trace_read_csv [of ptsv w] by (simp add: prelude_def bind_def)
next
  case (Return P w1)
  then show ?thesis
    using trace_read_csv [of ptsv w]
    by (simp add: prelude_def bind_def ensure_dir_eq voting_ensured)
qed

lemma component_body_voting:
  "\<exists>e w'. component_body E P odir out rep strat cwb thr vb i w = Raise e w'
        \<and> filter is_voting (trace w') = filter is_voting (trace w)"
proof (cases "read_csv (opnmf_tsv odir i) (ensured (component_output_dir out i) w)")
  case (Raise e w1)
  then show ?thesis
    using trace_read_csv [of "opnmf_tsv odir i" "ensured (component_output_dir out i) w"]
    by (simp add: component_body_def bind_def ensure_dir_eq voting_ensured)
next
  case (Return Sg w1)
  then have t: "filter is_voting (trace w1) = filter is_voting (trace w)"
    using trace_read_csv [of "opnmf_tsv odir i" "ensured (component_output_dir out i) w"]
    by (simp add: voting_ensured)
  show ?thesis
  proof (cases "opnmf_component_table P Sg")
    case (Inl e)
    then show ?thesis
      using Return t by (simp add: component_body_def bind_def ensure_dir_eq lift_def)
  next
    case (Inr T)
    then show ?thesis
      using Return t
      by (simp add: component_body_def bind_def ensure_dir_eq lift_def to_csv_def exists_three
          log_def)
  qed
qed

lemma unsupported_voting:
  assumes "vm \<noteq> ''soft_voting''" "vm \<noteq> ''hard_voting''" "vm \<noteq> ''consensus_voting''"
  shows "ensemble_voting E vm out comps rep v
       = Raise (Exception (''Method not implemented yet'' @ [CHR 0xEF, CHR 0xBC, CHR 0x81])) v"
  using assms by (simp add: ensemble_voting_def raise_def)

lemma multiscale_unsupported_voting:
  assumes vm: "vm \<noteq> ''soft_voting''" "vm \<noteq> ''hard_voting''" "vm \<noteq> ''consensus_voting''"
  shows "\<exists>e w'. classification_multiscale_opnmf E ptsv odir out comps rep strat vm cwb thr vb w
            = Raise e w'
          \<and> filter is_voting (trace w') = filter is_voting (trace w)"
proof (cases "strat = ''hold_out''")
  case False
  then show ?thesis
    by (simp add: classification_multiscale_opnmf_def raise_def)
next
  case True
  show ?thesis
  proof (cases "prelude ptsv out w")
    case (Raise e w2)
    then show ?thesis
      using True prelude_voting [of ptsv out w]
      by (simp add: classification_multiscale_opnmf_def bind_def)
  next
    case (Return P w2)
    then have t2: "filter is_voting (trace w2) = filter is_voting (trace w)"
      using prelude_voting [of ptsv out w] by simp
    show ?thesis
    proof (cases comps)
      case Nil
      then show ?thesis
        using True Return t2 unsupported_voting [OF vm]
        by (simp add: classification_multiscale_opnmf_def bind_def)
    next
      case (Cons i rest)
      obtain e w' where "component_body E P odir out rep strat cwb thr vb i w2 = Raise e w'"
        "filter is_voting (trace w') = filter is_voting (trace w2)"
        using component_body_voting by blast
      then show ?thesis
        using True Return t2 Cons by (simp add: classification_multiscale_opnmf_def bind_def)
    qed
  qed
qed

text \<open>
  C6, amended. An unsupported \<^verbatim>\<open>voting_method\<close> always ends the call in an exception and
  no aggregator is called, but the method is looked at last: once the participant table
  is read, the folders are made and the loop over the scales has completed, the call
  goes on as the choice of the aggregator does, which calls exactly the aggregator that
  matches a supported method and raises \<^verbatim>\<open>Method not implemented yet\<close> for any other.
\<close>

theorem voting_method_checked_after_loop:
  "(vm \<noteq> ''soft_voting'' \<longrightarrow> vm \<noteq> ''hard_voting'' \<longrightarrow> vm \<noteq> ''consensus_voting''
      \<longrightarrow> (\<exists>e w'. classification_multiscale_opnmf E ptsv odir out comps rep strat vm cwb thr vb w
                    = Raise e w'
                \<and> filter is_voting (trace w') = filter is_voting (trace w)))
   \<and> (\<forall>P w2 w3. prelude ptsv out w = Return P w2
        \<longrightarrow> for_each (component_body E P odir out rep ''hold_out'' cwb thr vb) comps w2 = Return () w3
        \<longrightarrow> classification_multiscale_opnmf E ptsv odir out comps rep ''hold_out'' vm cwb thr vb w
              = ensemble_voting E vm out comps rep w3
          \<and> (vm = ''soft_voting'' \<longrightarrow> events_since w3 (world_of (ensemble_voting E vm out comps rep w3))
                = [Ev_voting soft_majority_voting out comps rep])
          \<and> (vm = ''hard_voting'' \<longrightarrow> events_since w3 (world_of (ensemble_voting E vm out comps rep w3))
                = [Ev_voting hard_majority_voting out comps rep])
          \<and> (vm = ''consensus_voting''
                \<longrightarrow> events_since w3 (world_of (ensemble_voting E vm out comps rep w3))
                = [Ev_voting consensus_voting out comps rep])
          \<and> (vm \<noteq> ''soft_voting'' \<longrightarrow> vm \<noteq> ''hard_voting'' \<longrightarrow> vm \<noteq> ''consensus_voting''
                \<longrightarrow> ensemble_voting E vm out comps rep w3
                  = Raise (Exception (''Method not implemented yet'' @ [CHR 0xEF, CHR 0xBC, CHR 0x81]))
                      w3))"
proof (intro conjI allI impI)
  fix P w2 w3
  assume "prelude ptsv out w = Return P w2"
    "for_each (component_body E P odir out rep ''hold_out'' cwb thr vb) comps w2 = Return () w3"
  then show "classification_multiscale_opnmf E ptsv odir out comps rep ''hold_out'' vm cwb thr vb w
              = ensemble_voting E vm out comps rep w3"
    by (simp add: classification_multiscale_opnmf_def bind_def)
qed (simp_all add: multiscale_unsupported_voting ensemble_voting_def raise_def trace_call_ext)

text \<open>
  C6, as stated: an unsupported \<^verbatim>\<open>voting_method\<close> is refused before anything is done. It
  is not: with no scale to classify the call still reads the participant table and makes
  the two result folders, and only then raises.
\<close>

theorem voting_method_immediate_counterexample:
  "raised (classification_multiscale_opnmf example_env ''participants.tsv'' ''opnmf'' ''out'' [] 5
       ''hold_out'' ''majority'' True 8 False (opnmf_world signal))
     = Some (Exception (''Method not implemented yet'' @ [CHR 0xEF, CHR 0xBC, CHR 0x81]))
   \<and> trace (world_of (classification_multiscale_opnmf example_env ''participants.tsv'' ''opnmf'' ''out''
       [] 5 ''hold_out'' ''majority'' True 8 False (opnmf_world signal)))
     = [Ev_read_csv ''participants.tsv'', Ev_makedirs ''out/intermediate'', Ev_makedirs ''out/ensemble'']"
  by code_simp

theorem voting_method_checked_after_loop_witness:
  "classification_multiscale_opnmf example_env ''participants.tsv'' ''opnmf'' ''out'' [] 5
       ''hold_out'' ''hard_voting'' True 8 False (opnmf_world signal)
     = ensemble_voting example_env ''hard_voting'' ''out'' [] 5
         (world_of (prelude ''participants.tsv'' ''out'' (opnmf_world signal)))
   \<and> events_since (world_of (prelude ''participants.tsv'' ''out'' (opnmf_world signal)))
        (world_of (ensemble_voting example_env ''hard_voting'' ''out'' [] 5
           (world_of (prelude ''participants.tsv'' ''out'' (opnmf_world signal)))))
     = [Ev_voting hard_majority_voting ''out'' [] 5]
   \<and> (\<exists>e w'. classification_multiscale_opnmf example_env ''participants.tsv'' ''opnmf'' ''out'' [] 5
          ''hold_out'' ''majority'' True 8 False (opnmf_world signal) = Raise e w'
        \<and> filter is_voting (trace w') = filter is_voting (trace (opnmf_world signal)))"
proof -
  let ?w2 = "world_of (prelude ''participants.tsv'' ''out'' (opnmf_world signal))"
  have p: "prelude ''participants.tsv'' ''out'' (opnmf_world signal) = Return participants ?w2"
    using prelude_eq [OF example_participants example_tables(1),
        where out = "''out''" and sig1 = signal]
    by simp
  have l: "for_each (component_body example_env participants ''opnmf'' ''out'' 5 ''hold_out'' True 8 False)
        [] ?w2 = Return () ?w2"
    by simp
  have n: "''majority'' \<noteq> ''soft_voting''" "''majority'' \<noteq> ''hard_voting''"
    "''majority'' \<noteq> ''consensus_voting''"
    by simp_all
  have a: "classification_multiscale_opnmf example_env ''participants.tsv'' ''opnmf'' ''out'' [] 5
       ''hold_out'' ''hard_voting'' True 8 False (opnmf_world signal)
     = ensemble_voting example_env ''hard_voting'' ''out'' [] 5 ?w2
     \<and> events_since ?w2 (world_of (ensemble_voting example_env ''hard_voting'' ''out'' [] 5 ?w2))
       = [Ev_voting hard_majority_voting ''out'' [] 5]"
    using voting_method_checked_after_loop
      [where E = example_env and ptsv = "''participants.tsv''" and odir = "''opnmf''"
         and out = "''out''" and comps = "[]" and rep = 5 and vm = "''hard_voting''"
         and cwb = True and thr = 8 and vb = False and w = "opnmf_world signal"]
      p l
    by blast
  have b: "\<exists>e w'. classification_multiscale_opnmf example_env ''participants.tsv'' ''opnmf'' ''out'' [] 5
          ''hold_out'' ''majority'' True 8 False (opnmf_world signal) = Raise e w'
        \<and> filter is_voting (trace w') = filter is_voting (trace (opnmf_world signal))"
    using voting_method_checked_after_loop
      [where E = example_env and ptsv = "''participants.tsv''" and odir = "''opnmf''"
         and out = "''out''" and comps = "[]" and rep = 5 and vm = "''majority''"
         and strat = "''hold_out''"
         and cwb = True and thr = 8 and vb = False and w = "opnmf_world signal"]
      n
    by blast
  show ?thesis
    using a b by blast
qed

lemma roi_trace:
  "\<exists>es. trace (world_of (classification_roi E tsv out rep strat cwb thr seed vb w))
          = trace w @ Ev_input RB tsv # es
       \<and> (\<forall>y s d r sd. Ev_make_cv_partition y s d r sd \<in> set es \<longrightarrow> sd = seed)"
proof (cases "new_input E RB tsv w")
  case (Raise e w1)
  then show ?thesis
    using trace_new_input [of E RB tsv w] by (simp add: classification_roi_def bind_def)
next
  case (Return inp w1)
  then have t1: "trace w1 = trace w @ [Ev_input RB tsv]"
    using trace_new_input [of E RB tsv w] by simp
  have sp: "Ev_make_cv_partition y s d r sd = split_event inp out rep strat seed w1 \<Longrightarrow> sd = seed"
    for y s d r sd
    by (simp add: split_event_def split: if_splits)
  show ?thesis
  proof (cases "data_split E inp out rep strat seed w1")
    case (Raise e w2)
    then have "trace w2 = trace w @ Ev_input RB tsv # [split_event inp out rep strat seed w1]"
      using trace_data_split [of E inp out rep strat seed w1] t1 by simp
    then show ?thesis
      using Raise Return sp by (auto simp: classification_roi_def bind_def)
  next
    case Ret: (Return s w2)
    then have t2: "trace w2 = trace w @ Ev_input RB tsv # [split_event inp out rep strat seed w1]"
      using trace_data_split [of E inp out rep strat seed w1] t1 by simp
    show ?thesis
      using Ret Return t2 sp
      by (auto simp: classification_roi_def bind_def trace_run raise_def)
  qed
qed

text \<open>The call of lines 291--292, taken by itself: it is made with the seed 0, and
  whenever it asks \<^verbatim>\<open>make_cv_partition\<close> for a split it asks with the seed 0.\<close>

lemma scale_classification_seed:
  "\<exists>es. events_since w (world_of (scale_classification E out i rep strat cwb thr vb w))
          = Ev_classification_roi
              \<lparr>rc_feature_tsv = opnmf_component_tsv out i, rc_output_dir = component_output_dir out i,
               rc_cv_repetition = rep, rc_cv_strategy = strat, rc_class_weight_balanced = cwb,
               rc_n_threads = thr, rc_seed = Some 0, rc_verbose = vb\<rparr>
            # Ev_input RB (opnmf_component_tsv out i) # es
       \<and> (\<forall>y s d r sd. Ev_make_cv_partition y s d r sd \<in> set es \<longrightarrow> sd = Some 0)"
proof -
  let ?c = "Ev_classification_roi
              \<lparr>rc_feature_tsv = opnmf_component_tsv out i, rc_output_dir = component_output_dir out i,
               rc_cv_repetition = rep, rc_cv_strategy = strat, rc_class_weight_balanced = cwb,
               rc_n_threads = thr, rc_seed = Some 0, rc_verbose = vb\<rparr>"
  obtain es where
    t: "trace (world_of (classification_roi E (opnmf_component_tsv out i) (component_output_dir out i)
            rep strat cwb thr (Some 0) vb (log ?c w)))
          = trace (log ?c w) @ Ev_input RB (opnmf_component_tsv out i) # es"
    and s: "\<forall>y s d r sd. Ev_make_cv_partition y s d r sd \<in> set es \<longrightarrow> sd = Some 0"
    using roi_trace by blast
  have "trace (world_of (scale_classification E out i rep strat cwb thr vb w))
      = trace w @ (?c # Ev_input RB (opnmf_component_tsv out i) # es)"
    using t by (simp add: scale_classification_def log_def)
  then have "events_since w (world_of (scale_classification E out i rep strat cwb thr vb w))
      = ?c # Ev_input RB (opnmf_component_tsv out i) # es"
    by (rule events_since_append)
  then show ?thesis
    using s by blast
qed

lemma component_body_no_split:
  "\<exists>e w'. component_body E P odir out rep strat cwb thr vb i w = Raise e w'
        \<and> filter is_classification_roi (trace w') = filter is_classification_roi (trace w)
        \<and> filter is_make_cv_partition (trace w') = filter is_make_cv_partition (trace w)"
proof (cases "read_csv (opnmf_tsv odir i) (ensured (component_output_dir out i) w)")
  case (Raise e w1)
  then show ?thesis
    using trace_read_csv [of "opnmf_tsv odir i" "ensured (component_output_dir out i) w"]
    by (simp add: component_body_def bind_def ensure_dir_eq trace_ensured)
next
  case (Return Sg w1)
  then have t: "filter is_classification_roi (trace w1) = filter is_classification_roi (trace w)"
      "filter is_make_cv_partition (trace w1) = filter is_make_cv_partition (trace w)"
    using trace_read_csv [of "opnmf_tsv odir i" "ensured (component_output_dir out i) w"]
    by (simp_all add: trace_ensured)
  show ?thesis
  proof (cases "opnmf_component_table P Sg")
    case (Inl e)
    then show ?thesis
      using Return t by (simp add: component_body_def bind_def ensure_dir_eq lift_def)
  next
    case (Inr T)
    then show ?thesis
      using Return t
      by (simp add: component_body_def bind_def ensure_dir_eq lift_def to_csv_def exists_three
          log_def)
  qed
qed

lemma multiscale_never_classifies:
  "\<exists>e w'. classification_multiscale_opnmf E ptsv odir out (i # rest) rep strat vm cwb thr vb w
            = Raise e w'
        \<and> filter is_classification_roi (trace w') = filter is_classification_roi (trace w)
        \<and> filter is_make_cv_partition (trace w') = filter is_make_cv_partition (trace w)"
proof (cases "strat = ''hold_out''")
  case False
  then show ?thesis
    by (simp add: classification_multiscale_opnmf_def raise_def)
next
  case True
  show ?thesis
  proof (cases "read_csv ptsv w")
    case (Raise e w1)
    then show ?thesis
      using True trace_read_csv [of ptsv w]
      by (simp add: classification_multiscale_opnmf_def prelude_def bind_def)
  next
    case (Return P w1)
    let ?w2 = "ensured (os_path_join out [''ensemble''])
                 (ensured (os_path_join out [''intermediate'']) w1)"
    have p: "prelude ptsv out w = Return P ?w2"
      using Return by (simp add: prelude_def bind_def ensure_dir_eq)
    have t2: "filter is_classification_roi (trace ?w2) = filter is_classification_roi (trace w)"
      "filter is_make_cv_partition (trace ?w2) = filter is_make_cv_partition (trace w)"
      using Return trace_read_csv [of ptsv w] by (simp_all add: trace_ensured)
    obtain e w' where "component_body E P odir out rep strat cwb thr vb i ?w2 = Raise e w'"
      "filter is_classification_roi (trace w') = filter is_classification_roi (trace ?w2)"
      "filter is_make_cv_partition (trace w') = filter is_make_cv_partition (trace ?w2)"
      using component_body_no_split by blast
    then show ?thesis
      using True p t2 by (simp add: classification_multiscale_opnmf_def bind_def)
  qed
qed

text \<open>
  C4. Every scale is to be classified by \<^verbatim>\<open>classification_roi\<close> with the one seed 0, so that
  the splits of all scales are generated under the same seed. Run on a world with no
  summary for any scale, where both scales are to be classified, the orchestrator stops
  at the summary check of the first scale with a \<^verbatim>\<open>TypeError\<close>: \<^verbatim>\<open>classification_roi\<close> is
  not called for any scale and no split is generated, under any seed.
\<close>

theorem scales_never_classified:
  "os_path_exists [''out/component_2/classification/mean_results.tsv''] (fs (fresh_world signal))
     = Inr False
   \<and> raised (classification_multiscale_opnmf example_env ''participants.tsv'' ''opnmf'' ''out'' [2, 4] 5
        ''hold_out'' ''hard_voting'' True 8 False (fresh_world signal))
       = Some (TypeError ''exists() takes 1 positional argument'')
   \<and> filter is_classification_roi (trace (world_of
        (classification_multiscale_opnmf example_env ''participants.tsv'' ''opnmf'' ''out'' [2, 4] 5
           ''hold_out'' ''hard_voting'' True 8 False (fresh_world signal)))) = []
   \<and> filter is_make_cv_partition (trace (world_of
        (classification_multiscale_opnmf example_env ''participants.tsv'' ''opnmf'' ''out'' [2, 4] 5
           ''hold_out'' ''hard_voting'' True 8 False (fresh_world signal)))) = []"
  by code_simp

text \<open>
  C9, amended. When the per-scale table read for a scale is laid out as
  \<^verbatim>\<open>participant_id\<close>, \<^verbatim>\<open>session_id\<close>, \<^verbatim>\<open>path\<close> and then feature columns, none of them
  named \<^verbatim>\<open>diagnosis\<close>, the table written to \<^verbatim>\<open>intermediate/opnmf_component_<i>.tsv\<close> has
  the columns \<^verbatim>\<open>participant_id\<close>, \<^verbatim>\<open>session_id\<close>, \<^verbatim>\<open>diagnosis\<close> and then the same
  feature columns; its \<^verbatim>\<open>diagnosis\<close> and \<^verbatim>\<open>participant_id\<close> columns are the participant
  table's, and it is well formed.
\<close>

theorem written_table_layout:
  assumes "map_of (files (fs w)) (opnmf_tsv odir i) = Some (Tsv df_opnmf)"
    and "wf_table df_opnmf"
    and "columns df_opnmf = ''participant_id'' # ''session_id'' # ''path'' # features"
    and "''diagnosis'' \<notin> set features"
    and "opnmf_component_table df_participant df_opnmf = Inr T"
  shows "map_of (files (fs (world_of
             (component_body E df_participant odir out rep strat cwb thr vb i w))))
           (opnmf_component_tsv out i) = Some (Tsv T)
       \<and> columns T = ''participant_id'' # ''session_id'' # ''diagnosis'' # features
       \<and> col ''diagnosis'' T = col ''diagnosis'' df_participant
       \<and> col ''participant_id'' T = col ''participant_id'' df_participant
       \<and> wf_table T"
proof -
  have "map_of (files (fs (world_of
             (component_body E df_participant odir out rep strat cwb thr vb i w))))
           (opnmf_component_tsv out i) = Some (Tsv T)"
    using component_body_written [OF assms(1,2,5)] by (simp add: log_def write_file_def)
  then show ?thesis
    using component_table_layout [OF assms(2-5)] by simp
qed

text \<open>
  C9, as stated: the written table always has \<^verbatim>\<open>diagnosis\<close> as its third column. The
  diagnoses go where the \<^verbatim>\<open>path\<close> column of the per-scale table stands; a per-scale table
  without that column gets them as its last column.
\<close>

theorem written_table_layout_counterexample:
  "map_of (files (fs (world_of
       (classification_multiscale_opnmf example_env ''participants.tsv'' ''opnmf'' ''out'' [2] 5
          ''hold_out'' ''hard_voting'' True 8 False (opnmf_world signal_no_path)))))
     ''out/intermediate/opnmf_component_2.tsv''
   = Some (Tsv \<lparr>columns = [''participant_id'', ''session_id'', ''component_1'', ''component_2'',
                            ''diagnosis''],
                 rows = [[Cell ''sub-01'', Cell ''ses-M00'', Cell ''0.2'', Cell ''0.9'', Cell ''CN''],
                         [Cell ''sub-02'', Cell ''ses-M00'', Cell ''0.7'', Cell ''0.1'', Cell ''AD'']]\<rparr>)"
  by code_simp

theorem written_table_layout_witness:
  "map_of (files (fs (world_of
       (component_body example_env participants ''opnmf'' ''out'' 5 ''hold_out'' True 8 False 2
          (opnmf_world signal)))))
     ''out/intermediate/opnmf_component_2.tsv'' = Some (Tsv component_table)
   \<and> columns component_table
       = [''participant_id'', ''session_id'', ''diagnosis'', ''component_1'', ''component_2'']
   \<and> col ''diagnosis'' component_table = Inr [Cell ''CN'', Cell ''AD'']"
proof -
  have c: "columns signal
      = ''participant_id'' # ''session_id'' # ''path'' # [''component_1'', ''component_2'']"
    by (simp add: signal_def)
  have n: "''diagnosis'' \<notin> set [''component_1'', ''component_2'']"
    by simp
  have d: "col ''diagnosis'' participants = Inr [Cell ''CN'', Cell ''AD'']"
    by code_simp
  show ?thesis
    using written_table_layout [OF example_signal example_tables(2) c n example_tables(3),
        of example_env "''out''" 5 "''hold_out''" True 8 False]
      d
    by (simp add: example_paths)
qed

end
